theory Spec2Isabelle
  imports Complex_Main
begin

section \<open>Data model\<close>

text \<open>
  The backtester of \<^verbatim>\<open>src/backtester.py\<close> works on a pandas table (one row per
  trading date, one column per symbol). A table is modelled row by row: every row
  carries its date and one cell per column, so all columns share the one date index, as
  they do in a DataFrame. Floats are modelled as reals; a cell of the downloaded price
  table is \<open>None\<close> where pandas holds NaN (no price for that symbol on that date).
  Dates are day numbers; \<^verbatim>\<open>pd.to_datetime\<close> is the identity on them.
\<close>

type_synonym symbol = string
type_synonym date = nat

record 'a frame =
  columns :: "symbol list"
  rows :: "(date \<times> 'a list) list"

text \<open>The exceptions that the statements of the backtester can raise.\<close>

datatype error = AttributeError | TypeError | KeyError | ValueError

text \<open>
  A row of \<^verbatim>\<open>events_df\<close>, and a dictionary appended to \<^verbatim>\<open>self.results\<close>.
  The docstring asks for the four columns of the row; the loop reads the ticker, the date
  and the quality score, and never the catalyst type.
\<close>

record event =
  ticker :: symbol
  event_date :: date
  quality_score :: string
  catalyst_type :: string

record result_record =
  Ticker :: symbol
  Event_Date :: date
  Quality_Score :: string
  CAR :: real
  Real_Return :: real

text \<open>The instance attributes of \<^verbatim>\<open>BiotechEventBacktester\<close>.\<close>

record backtester =
  benchmark_ticker :: symbol
  estimation_window :: int
  event_window :: "int \<times> int"
  market_data :: "real frame option"
  results :: "result_record list"

definition init_backtester :: "symbol \<Rightarrow> int \<Rightarrow> int \<times> int \<Rightarrow> backtester" where
  "init_backtester benchmark est_window ev_window =
     \<lparr>benchmark_ticker = benchmark, estimation_window = est_window,
      event_window = ev_window, market_data = None, results = []\<rparr>"

section \<open>Table operations\<close>

text \<open>\<^verbatim>\<open>df.index\<close>: the dates of the rows, in order.\<close>

definition index :: "'a frame \<Rightarrow> date list" where
  "index md = map fst (rows md)"

text \<open>
  \<^verbatim>\<open>Index.get_loc(key)\<close>: the position of the key, \<open>None\<close> standing for the
  \<^verbatim>\<open>KeyError\<close> of an absent key. The index of daily data holds each date once, and
  each column name occurs once.
\<close>

fun get_loc :: "'k list \<Rightarrow> 'k \<Rightarrow> nat option" where
  "get_loc [] k = None"
| "get_loc (x # xs) k = (if x = k then Some 0 else map_option Suc (get_loc xs k))"

text \<open>\<^verbatim>\<open>df[name]\<close>: the column of that name, or \<^verbatim>\<open>KeyError\<close>.\<close>

definition getitem :: "'a frame \<Rightarrow> symbol \<Rightarrow> error + 'a list" where
  "getitem md name =
     (case get_loc (columns md) name of
        None \<Rightarrow> Inl KeyError
      | Some k \<Rightarrow> Inr (map (\<lambda>r. snd r ! k) (rows md)))"

text \<open>
  \<^verbatim>\<open>series.iloc[start:stop]\<close> with Python's slice rules: a negative bound counts
  from the end, every bound is clipped to the series, and nothing is raised.
\<close>

definition slice_bound :: "nat \<Rightarrow> int \<Rightarrow> nat" where
  "slice_bound n i = nat (if i < 0 then max (i + int n) 0 else min i (int n))"

definition iloc :: "'a list \<Rightarrow> int \<Rightarrow> int \<Rightarrow> 'a list" where
  "iloc xs start stop =
     drop (slice_bound (length xs) start) (take (slice_bound (length xs) stop) xs)"

section \<open>fetch_market_data\<close>

text \<open>
  \<^verbatim>\<open>np.log(data / data.shift(1)).dropna()\<close> on the table of adjusted close prices
  that the download returns for \<^verbatim>\<open>tickers + [benchmark_ticker]\<close>. Prices are
  positive where present. A cell of the quotient is NaN when either price is missing;
  the first row is divided by the NaN row that \<^verbatim>\<open>shift(1)\<close> puts in front.
\<close>

fun log_ratio :: "real option \<Rightarrow> real option \<Rightarrow> real option" where
  "log_ratio (Some p) (Some q) = Some (ln (p / q))"
| "log_ratio _ _ = None"

fun log_returns :: "real option list \<Rightarrow> (date \<times> real option list) list
    \<Rightarrow> (date \<times> real option list) list" where
  "log_returns prev [] = []"
| "log_returns prev (r # rs) = (fst r, map2 log_ratio (snd r) prev) # log_returns (snd r) rs"

text \<open>\<^verbatim>\<open>dropna()\<close>: a row stays only if none of its cells is NaN.\<close>

definition dropna :: "(date \<times> real option list) list \<Rightarrow> (date \<times> real list) list" where
  "dropna rs = map (\<lambda>r. (fst r, map the (snd r))) (filter (\<lambda>r. None \<notin> set (snd r)) rs)"

definition log_return_frame :: "real option frame \<Rightarrow> real frame" where
  "log_return_frame data =
     \<lparr>columns = columns data,
      rows = dropna (log_returns (replicate (length (columns data)) None) (rows data))\<rparr>"

definition fetch_market_data :: "backtester \<Rightarrow> real option frame \<Rightarrow> backtester" where
  "fetch_market_data bt data = bt\<lparr>market_data := Some (log_return_frame data)\<rparr>"

section \<open>calculate_expected_return\<close>

text \<open>
  \<^verbatim>\<open>LinearRegression().fit(X, y)\<close> with one regressor: ordinary least squares
  with an intercept, in exact arithmetic. The fit raises \<^verbatim>\<open>ValueError\<close> on an empty
  sample; for a constant regressor the least-squares solution of least norm has slope 0.
  The result is \<open>(intercept, slope)\<close>.
\<close>

definition mean :: "real list \<Rightarrow> real" where
  "mean xs = sum_list xs / real (length xs)"

definition linear_regression_fit :: "real list \<Rightarrow> real list \<Rightarrow> error + real \<times> real" where
  "linear_regression_fit X y =
     (if X = [] \<or> length X \<noteq> length y then Inl ValueError
      else let sxx = (\<Sum>x\<leftarrow>X. (x - mean X) ^ 2);
               sxy = (\<Sum>p\<leftarrow>zip X y. (fst p - mean X) * (snd p - mean y));
               slope = (if sxx = 0 then 0 else sxy / sxx)
           in Inr (mean y - slope * mean X, slope))"

definition est_start :: "backtester \<Rightarrow> int \<Rightarrow> int" where
  "est_start bt event_date_idx =
     event_date_idx - estimation_window bt - \<bar>fst (event_window bt)\<bar>"

definition est_end :: "backtester \<Rightarrow> int \<Rightarrow> int" where
  "est_end bt event_date_idx = event_date_idx - \<bar>fst (event_window bt)\<bar>"

text \<open>The result is \<open>Inr None\<close> for Python's \<^verbatim>\<open>return None\<close>, else \<open>(alpha, beta)\<close>.\<close>

definition calculate_expected_return ::
    "backtester \<Rightarrow> symbol \<Rightarrow> int \<Rightarrow> error + (real \<times> real) option" where
  "calculate_expected_return bt stock_ticker event_date_idx =
     (if est_start bt event_date_idx < 0 then Inr None
      else case market_data bt of
        None \<Rightarrow> Inl TypeError
      | Some md \<Rightarrow>
         (case getitem md stock_ticker of
            Inl e \<Rightarrow> Inl e
          | Inr ys \<Rightarrow>
             (case getitem md (benchmark_ticker bt) of
                Inl e \<Rightarrow> Inl e
              | Inr xs \<Rightarrow>
                 (case linear_regression_fit
                         (iloc xs (est_start bt event_date_idx) (est_end bt event_date_idx))
                         (iloc ys (est_start bt event_date_idx) (est_end bt event_date_idx)) of
                    Inl e \<Rightarrow> Inl e
                  | Inr ab \<Rightarrow> Inr (Some ab)))))"

section \<open>run_event_study\<close>

definition win_start :: "backtester \<Rightarrow> int \<Rightarrow> int" where
  "win_start bt event_idx = event_idx + fst (event_window bt)"

definition win_end :: "backtester \<Rightarrow> int \<Rightarrow> int" where
  "win_end bt event_idx = event_idx + snd (event_window bt)"

text \<open>
  The series arithmetic of the loop body. Both operands of every operation are slices
  of the same table over the same bounds, so pandas combines them position by position.
\<close>

definition expected_returns :: "real \<Rightarrow> real \<Rightarrow> real list \<Rightarrow> real list" where
  "expected_returns alpha beta market_returns = map (\<lambda>m. alpha + beta * m) market_returns"

definition abnormal_returns :: "real list \<Rightarrow> real list \<Rightarrow> real list" where
  "abnormal_returns real_returns expected = map2 (-) real_returns expected"

text \<open>
  One pass of the loop body for one row of \<^verbatim>\<open>events_df\<close>: \<open>Inr None\<close> is
  \<^verbatim>\<open>continue\<close>, \<open>Inr (Some r)\<close> is the dictionary appended to the results, \<open>Inl e\<close>
  an exception that leaves the loop.
\<close>

definition process_event :: "backtester \<Rightarrow> event \<Rightarrow> error + result_record option" where
  "process_event bt row =
     (case market_data bt of
        None \<Rightarrow> Inl AttributeError
      | Some md \<Rightarrow>
         if ticker row \<notin> set (columns md) then Inr None
         else case get_loc (index md) (event_date row) of
           None \<Rightarrow> Inr None
         | Some event_idx \<Rightarrow>
            (case calculate_expected_return bt (ticker row) (int event_idx) of
               Inl e \<Rightarrow> Inl e
             | Inr None \<Rightarrow> Inr None
             | Inr (Some (alpha, beta)) \<Rightarrow>
                (case getitem md (ticker row) of
                   Inl e \<Rightarrow> Inl e
                 | Inr stock \<Rightarrow>
                    (case getitem md (benchmark_ticker bt) of
                       Inl e \<Rightarrow> Inl e
                     | Inr bench \<Rightarrow>
                        let real_returns =
                              iloc stock (win_start bt (int event_idx))
                                (win_end bt (int event_idx) + 1);
                            market_returns =
                              iloc bench (win_start bt (int event_idx))
                                (win_end bt (int event_idx) + 1)
                        in Inr (Some
                             \<lparr>Ticker = ticker row, Event_Date = event_date row,
                              Quality_Score = quality_score row,
                              CAR = sum_list (abnormal_returns real_returns
                                      (expected_returns alpha beta market_returns)),
                              Real_Return = sum_list real_returns\<rparr>)))))"

text \<open>
  The loop over the events. An exception ends it; the records appended to
  \<^verbatim>\<open>self.results\<close> before the exception stay on the instance.
\<close>

fun event_loop :: "backtester \<Rightarrow> event list \<Rightarrow> error option \<times> backtester" where
  "event_loop bt [] = (None, bt)"
| "event_loop bt (row # evs) =
     (case process_event bt row of
        Inl e \<Rightarrow> (Some e, bt)
      | Inr None \<Rightarrow> event_loop bt evs
      | Inr (Some r) \<Rightarrow> event_loop (bt\<lparr>results := results bt @ [r]\<rparr>) evs)"

text \<open>
  \<^verbatim>\<open>run_event_study\<close> returns the table built from \<^verbatim>\<open>self.results\<close>, or raises;
  the second component is the instance after the call.
\<close>

definition run_event_study ::
    "backtester \<Rightarrow> event list \<Rightarrow> (error + result_record list) \<times> backtester" where
  "run_event_study bt events_df =
     (case event_loop bt events_df of
        (Some e, bt') \<Rightarrow> (Inl e, bt')
      | (None, bt') \<Rightarrow> (Inr (results bt'), bt'))"

section \<open>Processable events\<close>

text \<open>
  An event is processable when the loop body reaches the append for it; \<open>emitted\<close>
  lists the records of the processable events of a sequence, in the order of the
  sequence.
\<close>

definition record_of :: "backtester \<Rightarrow> event \<Rightarrow> result_record option" where
  "record_of bt row = (case process_event bt row of Inr (Some r) \<Rightarrow> Some r | _ \<Rightarrow> None)"

definition processable :: "backtester \<Rightarrow> event \<Rightarrow> bool" where
  "processable bt row = (record_of bt row \<noteq> None)"

definition emitted :: "backtester \<Rightarrow> event list \<Rightarrow> result_record list" where
  "emitted bt evs = List.map_filter (record_of bt) evs"

section \<open>A small store\<close>

text \<open>
  Six trading days of returns for the security \<open>X\<close> and the benchmark \<open>B\<close>, an
  engine with an estimation window of two days and the event window \<open>(-1, 1)\<close>.
\<close>

definition demo_store :: "real frame" where
  "demo_store =
     \<lparr>columns = [''X'', ''B''],
      rows = [(100, [1, 0]), (101, [3, 1]), (102, [2, 1]),
              (103, [4, 2]), (104, [1, 0]), (105, [2, 1])]\<rparr>"

definition demo_backtester :: backtester where
  "demo_backtester = (init_backtester ''B'' 2 (- 1, 1))\<lparr>market_data := Some demo_store\<rparr>"

definition demo_event :: "symbol \<Rightarrow> date \<Rightarrow> event" where
  "demo_event t d =
     \<lparr>ticker = t, event_date = d, quality_score = ''High'', catalyst_type = ''PHASE3''\<rparr>"

text \<open>
  Two variants for the degenerate cases of the abnormal return, each read by the same
  engine at the event of date 103 (position 3, estimation over positions 0 and 1, trade
  window over positions 2 to 4). In the first the security does not move over the
  estimation window, so the fit is \<open>alpha = 0\<close>, \<open>beta = 0\<close>. In the second the fit is
  \<open>alpha = 0.001\<close>, \<open>beta = 1.2\<close> and the benchmark does not move over the trade
  window.
\<close>

definition zero_model_store :: "real frame" where
  "zero_model_store =
     \<lparr>columns = [''X'', ''B''],
      rows = [(100, [0, 0]), (101, [0, 1]), (102, [3, 1]), (103, [- 1, 2]), (104, [2, 0])]\<rparr>"

definition flat_benchmark_store :: "real frame" where
  "flat_benchmark_store =
     \<lparr>columns = [''X'', ''B''],
      rows = [(100, [1 / 1000, 0]), (101, [1201 / 1000, 1]), (102, [3, 0]),
              (103, [- 1, 0]), (104, [2, 0])]\<rparr>"

definition demo_backtester_on :: "real frame \<Rightarrow> backtester" where
  "demo_backtester_on md = (init_backtester ''B'' 2 (- 1, 1))\<lparr>market_data := Some md\<rparr>"

text \<open>
  An engine with a negative estimation window, and the small store with the return of
  \<open>X\<close> on the fifth day (position 4) changed.
\<close>

definition negative_window_backtester :: "real frame \<Rightarrow> backtester" where
  "negative_window_backtester md =
     (init_backtester ''B'' (- 4) (- 2, 1))\<lparr>market_data := Some md\<rparr>"

definition demo_store_changed :: "real frame" where
  "demo_store_changed =
     \<lparr>columns = [''X'', ''B''],
      rows = [(100, [1, 0]), (101, [3, 1]), (102, [2, 1]),
              (103, [4, 2]), (104, [7, 0]), (105, [2, 1])]\<rparr>"

section \<open>Raw price tables\<close>

text \<open>
  A table is rectangular when every row has one cell per column, as every DataFrame is.
  The raw series of the symbol in column \<open>k\<close> holds the dates on which that symbol has a
  price.
\<close>

definition rectangular :: "'a frame \<Rightarrow> bool" where
  "rectangular data = list_all (\<lambda>r. length (snd r) = length (columns data)) (rows data)"

definition raw_dates :: "real option frame \<Rightarrow> nat \<Rightarrow> date list" where
  "raw_dates data k = map fst (filter (\<lambda>r. snd r ! k \<noteq> None) (rows data))"

text \<open>
  Four days of prices in which the benchmark has no price on the second day, and a
  table of a single day.
\<close>

definition demo_prices :: "real option frame" where
  "demo_prices =
     \<lparr>columns = [''X'', ''B''],
      rows = [(100, [Some 1, Some 2]), (101, [Some 2, None]),
              (102, [Some 2, Some 2]), (103, [Some 4, Some 2])]\<rparr>"

definition single_day_prices :: "real option frame" where
  "single_day_prices = \<lparr>columns = [''X'', ''B''], rows = [(100, [Some 1, Some 2])]\<rparr>"

section \<open>Unfolding\<close>

lemmas demo_defs =
  demo_store_def demo_backtester_def demo_event_def init_backtester_def

lemmas engine_defs =
  process_event_def calculate_expected_return_def est_start_def est_end_def
  win_start_def win_end_def getitem_def index_def iloc_def slice_bound_def
  linear_regression_fit_def mean_def expected_returns_def abnormal_returns_def
  power2_eq_square

lemmas run_defs = run_event_study_def record_of_def emitted_def

section \<open>Slices\<close>

lemma slice_bound_le: "slice_bound n i \<le> n"
  by (auto simp add: slice_bound_def)

lemma slice_bound_nonneg: "0 \<le> i \<Longrightarrow> slice_bound n i = min (nat i) n"
  by (simp add: slice_bound_def)

lemma slice_bound_in_range: "0 \<le> i \<Longrightarrow> i \<le> int n \<Longrightarrow> slice_bound n i = nat i"
  by (simp add: slice_bound_def)

lemma slice_bound_beyond: "int n \<le> i \<Longrightarrow> slice_bound n i = n"
  by (simp add: slice_bound_def)

lemma slice_bound_negative: "i < 0 \<Longrightarrow> slice_bound n i = nat (i + int n)"
  by (simp add: slice_bound_def)

lemma iloc_nonneg: "0 \<le> a \<Longrightarrow> 0 \<le> b \<Longrightarrow> iloc xs a b = drop (nat a) (take (nat b) xs)"
  by (simp add: iloc_def slice_bound_nonneg min_def)

lemma iloc_map: "iloc (map f xs) a b = map f (iloc xs a b)"
  by (simp add: iloc_def drop_map take_map)

lemma drop_take_nth:
  assumes "hi \<le> length xs"
  shows "drop lo (take hi xs) = map ((!) xs) [lo..<hi]"
proof -
  have "take hi xs = map ((!) xs) [0..<hi]"
    using assms by (intro nth_equalityI) simp_all
  then have "drop lo (take hi xs) = map ((!) xs) (drop lo [0..<hi])"
    by (simp add: drop_map)
  then show ?thesis by simp
qed

lemma iloc_positions:
  "iloc xs a b = map ((!) xs) [slice_bound (length xs) a..<slice_bound (length xs) b]"
  unfolding iloc_def by (rule drop_take_nth) (rule slice_bound_le)

lemma length_iloc: "length (iloc xs a b) = slice_bound (length xs) b - slice_bound (length xs) a"
  by (simp add: iloc_def min_absorb2 slice_bound_le)

lemma iloc_in_range:
  assumes "0 \<le> a" "a \<le> b" "b \<le> int (length xs)"
  shows "iloc xs a b = map ((!) xs) [nat a..<nat b]"
  using assms by (simp add: iloc_positions [of xs] slice_bound_in_range)

lemma length_iloc_in_range:
  assumes "0 \<le> a" "a \<le> b" "b \<le> int (length xs)"
  shows "length (iloc xs a b) = nat (b - a)"
  using assms by (simp add: length_iloc slice_bound_in_range)

lemma iloc_take:
  assumes "0 \<le> a" "0 \<le> b" "take (nat b) xs' = take (nat b) xs"
  shows "iloc xs' a b = iloc xs a b"
  using assms by (simp add: iloc_nonneg)

lemma set_iloc_subset: "set (iloc xs a b) \<subseteq> set xs"
  unfolding iloc_def by (meson set_drop_subset set_take_subset subset_trans)

lemma sum_list_iloc_positions:
  "sum_list (iloc (xs :: real list) a b)
     = (\<Sum>i\<leftarrow>[slice_bound (length xs) a..<slice_bound (length xs) b]. xs ! i)"
  by (simp add: iloc_positions [of xs])

section \<open>Positions and columns\<close>

lemma get_loc_None_iff: "get_loc xs k = None \<longleftrightarrow> k \<notin> set xs"
  by (induction xs) auto

lemma get_loc_Some: "get_loc xs k = Some i \<Longrightarrow> i < length xs \<and> xs ! i = k"
  by (induction xs arbitrary: i) (auto split: if_splits)

lemma length_index: "length (index md) = length (rows md)"
  by (simp add: index_def)

lemma length_getitem: "getitem md name = Inr col \<Longrightarrow> length col = length (rows md)"
  by (auto simp add: getitem_def split: option.splits)

lemma getitem_member: "name \<in> set (columns md) \<Longrightarrow> \<exists>col. getitem md name = Inr col"
  by (cases "get_loc (columns md) name") (simp_all add: getitem_def get_loc_None_iff)

lemma getitem_take:
  assumes cols: "columns md' = columns md"
    and same: "take k (rows md') = take k (rows md)"
    and col: "getitem md name = Inr xs"
  shows "\<exists>xs'. getitem md' name = Inr xs' \<and> take k xs' = take k xs"
proof -
  from col obtain j where j: "get_loc (columns md) name = Some j"
    and xs: "xs = map (\<lambda>r. snd r ! j) (rows md)"
    by (auto simp add: getitem_def split: option.splits)
  have "getitem md' name = Inr (map (\<lambda>r. snd r ! j) (rows md'))"
    using j cols by (simp add: getitem_def)
  moreover have "take k (map (\<lambda>r. snd r ! j) (rows md')) = take k xs"
    unfolding xs take_map same ..
  ultimately show ?thesis by blast
qed

section \<open>The loop body\<close>

lemma bounds_results [simp]:
  "est_start (bt\<lparr>results := rs\<rparr>) = est_start bt"
  "est_end (bt\<lparr>results := rs\<rparr>) = est_end bt"
  "win_start (bt\<lparr>results := rs\<rparr>) = win_start bt"
  "win_end (bt\<lparr>results := rs\<rparr>) = win_end bt"
  by (simp_all add: est_start_def est_end_def win_start_def win_end_def fun_eq_iff)

lemma calculate_expected_return_results [simp]:
  "calculate_expected_return (bt\<lparr>results := rs\<rparr>) t i = calculate_expected_return bt t i"
  by (simp add: calculate_expected_return_def cong: option.case_cong sum.case_cong)

lemma process_event_results [simp]:
  "process_event (bt\<lparr>results := rs\<rparr>) row = process_event bt row"
  by (simp add: process_event_def cong: option.case_cong sum.case_cong if_cong)

lemma record_of_results [simp]: "record_of (bt\<lparr>results := rs\<rparr>) = record_of bt"
  by (simp add: record_of_def fun_eq_iff)

lemma emitted_results [simp]: "emitted (bt\<lparr>results := rs\<rparr>) = emitted bt"
  by (simp add: emitted_def fun_eq_iff)

lemma insufficient_history_None:
  "i - \<bar>fst (event_window bt)\<bar> - estimation_window bt < 0 \<Longrightarrow>
   calculate_expected_return bt t i = Inr None"
  by (simp add: calculate_expected_return_def est_start_def)

lemma calculate_expected_return_Some:
  assumes "calculate_expected_return bt t i = Inr (Some ab)"
  shows "0 \<le> est_start bt i
    \<and> (\<exists>md ys xs. market_data bt = Some md \<and> getitem md t = Inr ys
          \<and> getitem md (benchmark_ticker bt) = Inr xs
          \<and> linear_regression_fit (iloc xs (est_start bt i) (est_end bt i))
               (iloc ys (est_start bt i) (est_end bt i)) = Inr ab)"
  using assms
  by (auto simp add: calculate_expected_return_def split: if_splits option.splits sum.splits)

lemma calculate_expected_return_fits:
  assumes store: "market_data bt = Some md"
    and member: "t \<in> set (columns md)"
    and bench: "benchmark_ticker bt \<in> set (columns md)"
    and w: "0 < estimation_window bt"
    and n: "event_idx < length (rows md)"
    and s0: "0 \<le> est_start bt (int event_idx)"
  shows "\<exists>ab. calculate_expected_return bt t (int event_idx) = Inr (Some ab)"
proof -
  from getitem_member [OF member] obtain ys where ys: "getitem md t = Inr ys"
    by blast
  from getitem_member [OF bench] obtain xs where xs: "getitem md (benchmark_ticker bt) = Inr xs"
    by blast
  let ?s = "est_start bt (int event_idx)"
  let ?e = "est_end bt (int event_idx)"
  have e: "?e = ?s + estimation_window bt" by (simp add: est_start_def est_end_def)
  have le: "?e \<le> int (length (rows md))" using n by (simp add: est_end_def)
  have "slice_bound (length (rows md)) ?s = nat ?s"
    using s0 e le w by (simp add: slice_bound_in_range)
  moreover have "slice_bound (length (rows md)) ?e = nat ?e"
    using s0 e le w by (simp add: slice_bound_in_range)
  ultimately have len: "length (iloc xs ?s ?e) = nat (estimation_window bt)"
    "length (iloc ys ?s ?e) = nat (estimation_window bt)"
    using length_getitem [OF xs] length_getitem [OF ys] s0 e
    by (simp_all add: length_iloc)
  then have "iloc xs ?s ?e \<noteq> []" using w by auto
  with len obtain ab where
    "linear_regression_fit (iloc xs ?s ?e) (iloc ys ?s ?e) = Inr ab"
    by (simp add: linear_regression_fit_def Let_def)
  then have "calculate_expected_return bt t (int event_idx) = Inr (Some ab)"
    using s0 store ys xs by (simp add: calculate_expected_return_def)
  then show ?thesis by blast
qed

text \<open>What a pass of the loop body that appends a record has computed, and conversely.\<close>

lemma process_event_Some:
  assumes "market_data bt = Some md" and "process_event bt row = Inr (Some r)"
  shows "\<exists>event_idx alpha beta stock bench.
      ticker row \<in> set (columns md)
    \<and> get_loc (index md) (event_date row) = Some event_idx
    \<and> calculate_expected_return bt (ticker row) (int event_idx) = Inr (Some (alpha, beta))
    \<and> getitem md (ticker row) = Inr stock
    \<and> getitem md (benchmark_ticker bt) = Inr bench
    \<and> r = \<lparr>Ticker = ticker row, Event_Date = event_date row,
            Quality_Score = quality_score row,
            CAR = sum_list (abnormal_returns
                    (iloc stock (win_start bt (int event_idx)) (win_end bt (int event_idx) + 1))
                    (expected_returns alpha beta
                       (iloc bench (win_start bt (int event_idx)) (win_end bt (int event_idx) + 1)))),
            Real_Return = sum_list
                    (iloc stock (win_start bt (int event_idx)) (win_end bt (int event_idx) + 1))\<rparr>"
  using assms
  by (auto simp add: process_event_def Let_def split: if_splits option.splits sum.splits)

lemma process_event_emits:
  assumes "market_data bt = Some md"
    and "ticker row \<in> set (columns md)"
    and "get_loc (index md) (event_date row) = Some event_idx"
    and "calculate_expected_return bt (ticker row) (int event_idx) = Inr (Some (alpha, beta))"
    and "getitem md (ticker row) = Inr stock"
    and "getitem md (benchmark_ticker bt) = Inr bench"
  shows "process_event bt row = Inr (Some
           \<lparr>Ticker = ticker row, Event_Date = event_date row,
            Quality_Score = quality_score row,
            CAR = sum_list (abnormal_returns
                    (iloc stock (win_start bt (int event_idx)) (win_end bt (int event_idx) + 1))
                    (expected_returns alpha beta
                       (iloc bench (win_start bt (int event_idx)) (win_end bt (int event_idx) + 1)))),
            Real_Return = sum_list
                    (iloc stock (win_start bt (int event_idx)) (win_end bt (int event_idx) + 1))\<rparr>)"
  using assms by (simp add: process_event_def Let_def)

lemma processable_iff:
  assumes store: "market_data bt = Some md"
    and bench: "benchmark_ticker bt \<in> set (columns md)"
    and w: "0 < estimation_window bt"
  shows "processable bt row \<longleftrightarrow>
     ticker row \<in> set (columns md)
     \<and> (\<exists>event_idx. get_loc (index md) (event_date row) = Some event_idx
           \<and> 0 \<le> int event_idx - \<bar>fst (event_window bt)\<bar> - estimation_window bt)"
proof
  assume "processable bt row"
  then obtain r where r: "process_event bt row = Inr (Some r)"
    by (auto simp add: processable_def record_of_def split: sum.splits option.splits)
  from process_event_Some [OF store r] obtain event_idx alpha beta where
    m: "ticker row \<in> set (columns md)"
    and loc: "get_loc (index md) (event_date row) = Some event_idx"
    and fit: "calculate_expected_return bt (ticker row) (int event_idx) = Inr (Some (alpha, beta))"
    by blast
  from calculate_expected_return_Some [OF fit] have "0 \<le> est_start bt (int event_idx)"
    by blast
  then have "0 \<le> int event_idx - \<bar>fst (event_window bt)\<bar> - estimation_window bt"
    by (simp add: est_start_def)
  with m loc show "ticker row \<in> set (columns md)
     \<and> (\<exists>event_idx. get_loc (index md) (event_date row) = Some event_idx
           \<and> 0 \<le> int event_idx - \<bar>fst (event_window bt)\<bar> - estimation_window bt)"
    by blast
next
  assume "ticker row \<in> set (columns md)
     \<and> (\<exists>event_idx. get_loc (index md) (event_date row) = Some event_idx
           \<and> 0 \<le> int event_idx - \<bar>fst (event_window bt)\<bar> - estimation_window bt)"
  then obtain event_idx where m: "ticker row \<in> set (columns md)"
    and loc: "get_loc (index md) (event_date row) = Some event_idx"
    and h: "0 \<le> int event_idx - \<bar>fst (event_window bt)\<bar> - estimation_window bt"
    by blast
  have n: "event_idx < length (rows md)"
    using get_loc_Some [OF loc] by (simp add: length_index)
  have s0: "0 \<le> est_start bt (int event_idx)" using h by (simp add: est_start_def)
  from calculate_expected_return_fits [OF store m bench w n s0] obtain alpha beta where
    fit: "calculate_expected_return bt (ticker row) (int event_idx) = Inr (Some (alpha, beta))"
    by force
  from getitem_member [OF m] obtain stock where stock: "getitem md (ticker row) = Inr stock"
    by blast
  from getitem_member [OF bench] obtain bc where bc: "getitem md (benchmark_ticker bt) = Inr bc"
    by blast
  from process_event_emits [OF store m loc fit stock bc]
  show "processable bt row"
    by (simp add: processable_def record_of_def)
qed

lemma process_event_no_error:
  assumes store: "market_data bt = Some md"
    and bench: "benchmark_ticker bt \<in> set (columns md)"
    and w: "0 < estimation_window bt"
  shows "process_event bt row \<noteq> Inl e"
proof (cases "processable bt row")
  case True
  then show ?thesis
    by (auto simp add: processable_def record_of_def split: sum.splits option.splits)
next
  case False
  show ?thesis
  proof (cases "ticker row \<in> set (columns md)")
    case False
    with store show ?thesis by (simp add: process_event_def)
  next
    case member: True
    show ?thesis
    proof (cases "get_loc (index md) (event_date row)")
      case None
      with store member show ?thesis by (simp add: process_event_def)
    next
      case (Some event_idx)
      with False member processable_iff [OF store bench w, of row]
      have "int event_idx - \<bar>fst (event_window bt)\<bar> - estimation_window bt < 0"
        by auto
      then have "calculate_expected_return bt (ticker row) (int event_idx) = Inr None"
        by (rule insufficient_history_None)
      with store member Some show ?thesis by (simp add: process_event_def)
    qed
  qed
qed

section \<open>The loop\<close>

lemma event_loop_skip:
  "process_event bt row = Inr None \<Longrightarrow>
   event_loop bt (pre @ row # post) = event_loop bt (pre @ post)"
proof (induction pre arbitrary: bt)
  case Nil
  then show ?case by simp
next
  case (Cons a pre)
  show ?case
  proof (cases "process_event bt a")
    case (Inl e)
    then show ?thesis by simp
  next
    case (Inr outcome)
    show ?thesis
    proof (cases outcome)
      case None
      with Inr Cons show ?thesis by simp
    next
      case (Some r)
      have "process_event (bt\<lparr>results := results bt @ [r]\<rparr>) row = Inr None"
        using Cons.prems by simp
      from Cons.IH [OF this] Inr Some show ?thesis by simp
    qed
  qed
qed

lemma event_loop_no_error:
  "(\<forall>row \<in> set evs. \<forall>e. process_event bt row \<noteq> Inl e) \<Longrightarrow>
   event_loop bt evs = (None, bt\<lparr>results := results bt @ emitted bt evs\<rparr>)"
proof (induction evs arbitrary: bt)
  case Nil
  then show ?case by (simp add: emitted_def)
next
  case (Cons a evs)
  show ?case
  proof (cases "process_event bt a")
    case (Inl e)
    with Cons.prems show ?thesis by simp
  next
    case (Inr outcome)
    show ?thesis
    proof (cases outcome)
      case None
      have "event_loop bt evs = (None, bt\<lparr>results := results bt @ emitted bt evs\<rparr>)"
        using Cons by simp
      with Inr None show ?thesis by (simp add: emitted_def record_of_def)
    next
      case (Some r)
      let ?bt = "bt\<lparr>results := results bt @ [r]\<rparr>"
      have "\<forall>row \<in> set evs. \<forall>e. process_event ?bt row \<noteq> Inl e"
        using Cons.prems by simp
      from Cons.IH [OF this] Inr Some show ?thesis by (simp add: emitted_def record_of_def)
    qed
  qed
qed

lemma event_loop_returns:
  "event_loop bt evs = (None, bt') \<Longrightarrow> bt' = bt\<lparr>results := results bt @ emitted bt evs\<rparr>"
proof (induction evs arbitrary: bt)
  case Nil
  then show ?case by (simp add: emitted_def)
next
  case (Cons a evs)
  show ?case
  proof (cases "process_event bt a")
    case (Inl e)
    with Cons.prems show ?thesis by simp
  next
    case (Inr outcome)
    show ?thesis
    proof (cases outcome)
      case None
      with Inr Cons.prems have "event_loop bt evs = (None, bt')" by simp
      from Cons.IH [OF this] Inr None show ?thesis by (simp add: emitted_def record_of_def)
    next
      case (Some r)
      with Inr Cons.prems
      have "event_loop (bt\<lparr>results := results bt @ [r]\<rparr>) evs = (None, bt')" by simp
      from Cons.IH [OF this] Inr Some show ?thesis by (simp add: emitted_def record_of_def)
    qed
  qed
qed

lemma run_event_study_Inr:
  assumes "run_event_study bt evs = (Inr recs, bt')"
  shows "bt' = bt\<lparr>results := results bt @ emitted bt evs\<rparr> \<and> recs = results bt @ emitted bt evs"
proof -
  from assms have "event_loop bt evs = (None, bt') \<and> recs = results bt'"
    by (auto simp add: run_event_study_def split: prod.splits option.splits)
  with event_loop_returns [of bt evs bt'] show ?thesis by simp
qed

lemma emitted_filter:
  "emitted bt evs = map (the \<circ> record_of bt) (filter (processable bt) evs)"
proof -
  have "processable bt = (\<lambda>row. record_of bt row \<noteq> None)"
    by (simp add: fun_eq_iff processable_def)
  then show ?thesis
    by (simp only: emitted_def List.map_filter_def)
qed

section \<open>Sums over the trade window\<close>

lemma sum_abnormal_returns:
  "length xs = length ms \<Longrightarrow>
   sum_list (abnormal_returns xs (expected_returns a b ms))
     = sum_list xs - (a * real (length ms) + b * sum_list ms)"
  by (induction xs ms rule: list_induct2)
     (simp_all add: abnormal_returns_def expected_returns_def algebra_simps)

lemma sum_abnormal_positions:
  assumes len: "length stock = length bench"
  shows "sum_list (abnormal_returns (iloc stock a b) (expected_returns alpha beta (iloc bench a b)))
     = (\<Sum>i\<leftarrow>[slice_bound (length stock) a..<slice_bound (length stock) b].
          stock ! i - (alpha + beta * bench ! i))"
proof -
  have m: "map2 h (map f ps) (map g ps) = map (\<lambda>i. h (f i) (g i)) ps"
    for h :: "real \<Rightarrow> real \<Rightarrow> real" and f g and ps :: "nat list"
    by (induction ps) simp_all
  show ?thesis
    unfolding iloc_positions [of stock] iloc_positions [of bench] len [symmetric]
    by (simp add: abnormal_returns_def expected_returns_def m comp_def)
qed

lemma sum_abnormal_flat:
  assumes len: "length xs = length ms" and z: "\<forall>m \<in> set ms. m = 0"
  shows "abnormal_returns xs (expected_returns alpha beta ms) = map (\<lambda>x. x - alpha) xs"
  using assms
  by (induction xs ms rule: list_induct2) (simp_all add: abnormal_returns_def expected_returns_def)

lemma sum_list_all_zero: "\<forall>m \<in> set ms. m = (0::real) \<Longrightarrow> sum_list ms = 0"
  by (induction ms) simp_all

lemma expected_returns_flat:
  "\<forall>m \<in> set ms. m = 0 \<Longrightarrow> expected_returns alpha beta ms = replicate (length ms) alpha"
  by (induction ms) (simp_all add: expected_returns_def)

section \<open>The log-return table\<close>

lemma log_ratio_Some: "log_ratio c p \<noteq> None \<Longrightarrow> c \<noteq> None \<and> p \<noteq> None"
  by (cases c; cases p) simp_all

lemma log_returns_rows:
  assumes "r \<in> set (log_returns prev rws)"
    and "length prev = n"
    and "\<forall>q \<in> set rws. length (snd q) = n"
  shows "\<exists>cs p. (fst r, cs) \<in> set rws \<and> length cs = n \<and> length p = n
           \<and> snd r = map2 log_ratio cs p"
  using assms
proof (induction rws arbitrary: prev)
  case Nil
  then show ?case by simp
next
  case (Cons q rws)
  show ?case
  proof (cases "r = (fst q, map2 log_ratio (snd q) prev)")
    case True
    have "(fst r, snd q) \<in> set (q # rws)" using True by simp
    moreover have "length (snd q) = n" using Cons.prems by simp
    moreover have "snd r = map2 log_ratio (snd q) prev" using True by simp
    ultimately show ?thesis using Cons.prems(2) by blast
  next
    case False
    with Cons.prems have "r \<in> set (log_returns (snd q) rws)" by simp
    moreover have "length (snd q) = n" using Cons.prems by simp
    moreover have "\<forall>q \<in> set rws. length (snd q) = n" using Cons.prems by simp
    ultimately obtain cs p where
      "(fst r, cs) \<in> set rws \<and> length cs = n \<and> length p = n \<and> snd r = map2 log_ratio cs p"
      using Cons.IH by blast
    then show ?thesis by auto
  qed
qed

lemma complete_row_has_prices:
  assumes sr: "snd r = map2 log_ratio cs p" and lc: "length cs = n" and lp: "length p = n"
    and full: "None \<notin> set (snd r)" and k: "k < n"
  shows "cs ! k \<noteq> None"
proof -
  have lk: "k < length (map2 log_ratio cs p)" using lc lp k by simp
  then have "map2 log_ratio cs p ! k \<in> set (map2 log_ratio cs p)" by (rule nth_mem)
  moreover have "map2 log_ratio cs p ! k = log_ratio (cs ! k) (p ! k)"
    using lc lp k by simp
  ultimately have "log_ratio (cs ! k) (p ! k) \<in> set (snd r)" using sr by simp
  with full have "log_ratio (cs ! k) (p ! k) \<noteq> None" by metis
  then show ?thesis using log_ratio_Some by blast
qed

lemma stored_date_has_prices:
  assumes rect: "rectangular data"
    and d: "d \<in> set (index (log_return_frame data))"
    and k: "k < length (columns data)"
  shows "d \<in> set (raw_dates data k)"
proof -
  let ?n = "length (columns data)"
  let ?rets = "log_returns (replicate ?n None) (rows data)"
  from d obtain r where r: "r \<in> set ?rets" and full: "None \<notin> set (snd r)" and dr: "d = fst r"
    by (auto simp add: index_def log_return_frame_def dropna_def)
  have len: "\<forall>q \<in> set (rows data). length (snd q) = ?n"
    using rect by (simp add: rectangular_def list_all_iff)
  from log_returns_rows [OF r _ len] obtain cs p where
    row: "(fst r, cs) \<in> set (rows data)" and lc: "length cs = ?n" and lp: "length p = ?n"
    and sr: "snd r = map2 log_ratio cs p"
    by auto
  have "cs ! k \<noteq> None" using sr lc lp full k by (rule complete_row_has_prices)
  with row have "(fst r, cs) \<in> {q \<in> set (rows data). snd q ! k \<noteq> None}" by simp
  then have "fst (fst r, cs) \<in> fst ` {q \<in> set (rows data). snd q ! k \<noteq> None}"
    by (rule imageI)
  then show ?thesis using dr by (simp add: raw_dates_def)
qed

lemma rectangular_log_return_frame:
  assumes rect: "rectangular data"
  shows "rectangular (log_return_frame data)"
proof -
  let ?n = "length (columns data)"
  let ?rets = "log_returns (replicate ?n None) (rows data)"
  have len: "\<forall>q \<in> set (rows data). length (snd q) = ?n"
    using rect by (simp add: rectangular_def list_all_iff)
  have "length (snd r) = ?n" if "r \<in> set ?rets" for r
  proof -
    from log_returns_rows [OF that _ len] obtain cs p where
      "length cs = ?n" "length p = ?n" "snd r = map2 log_ratio cs p"
      by auto
    then show ?thesis by simp
  qed
  then show ?thesis
    by (auto simp add: rectangular_def list_all_iff log_return_frame_def dropna_def)
qed

section \<open>The estimation window\<close>

text \<open>
  With \<open>estimation_window \<ge> 0\<close> the code does what its comment says. For every event
  for which a risk model is estimated: \<open>est_end = event_position - |lead_days|\<close>,
  \<open>est_start = est_end - estimation_window\<close> and \<open>est_start \<ge> 0\<close>; the regression is
  fitted on the benchmark and security returns at the positions \<open>est_start\<close> up to, but
  not including, \<open>est_end\<close>; every such position is less than
  \<open>event_position - |lead_days|\<close> and less than the start
  \<open>event_position + lead_days\<close> of the trade window; and the fitted \<open>(alpha, beta)\<close>
  is the same on every store that has the same columns and the same rows before position
  \<open>est_end\<close>, whatever its returns inside or after the trade window are.
\<close>

theorem estimation_window_before_trade_window:
  assumes w: "0 \<le> estimation_window bt"
    and store: "market_data bt = Some md"
    and loc: "get_loc (index md) d = Some event_idx"
    and fit: "calculate_expected_return bt t (int event_idx) = Inr (Some ab)"
  shows "est_end bt (int event_idx) = int event_idx - \<bar>fst (event_window bt)\<bar>
    \<and> est_start bt (int event_idx) = est_end bt (int event_idx) - estimation_window bt
    \<and> 0 \<le> est_start bt (int event_idx)
    \<and> (\<exists>ys xs. getitem md t = Inr ys \<and> getitem md (benchmark_ticker bt) = Inr xs
          \<and> linear_regression_fit
               (map ((!) xs) [nat (est_start bt (int event_idx))..<nat (est_end bt (int event_idx))])
               (map ((!) ys) [nat (est_start bt (int event_idx))..<nat (est_end bt (int event_idx))])
             = Inr ab)
    \<and> (\<forall>i \<in> set [nat (est_start bt (int event_idx))..<nat (est_end bt (int event_idx))].
          int i < int event_idx - \<bar>fst (event_window bt)\<bar>
          \<and> int i < win_start bt (int event_idx))
    \<and> (\<forall>md'. columns md' = columns md
          \<and> take (nat (est_end bt (int event_idx))) (rows md')
              = take (nat (est_end bt (int event_idx))) (rows md)
        \<longrightarrow> calculate_expected_return (bt\<lparr>market_data := Some md'\<rparr>) t (int event_idx)
              = Inr (Some ab))"
proof -
  let ?s = "est_start bt (int event_idx)"
  let ?e = "est_end bt (int event_idx)"
  from calculate_expected_return_Some [OF fit] store obtain ys xs where
    s0: "0 \<le> ?s"
    and ys: "getitem md t = Inr ys"
    and xs: "getitem md (benchmark_ticker bt) = Inr xs"
    and reg: "linear_regression_fit (iloc xs ?s ?e) (iloc ys ?s ?e) = Inr ab"
    by auto
  have e: "?e = int event_idx - \<bar>fst (event_window bt)\<bar>" by (simp add: est_end_def)
  have s: "?s = ?e - estimation_window bt" by (simp add: est_start_def est_end_def)
  have se: "?s \<le> ?e" using s w by simp
  have e0: "0 \<le> ?e" using s0 se by simp
  have n: "event_idx < length (rows md)"
    using get_loc_Some [OF loc] by (simp add: length_index)
  have en: "?e \<le> int (length (rows md))" using n e by simp
  have lx: "length xs = length (rows md)" and ly: "length ys = length (rows md)"
    using length_getitem [OF xs] length_getitem [OF ys] by simp_all
  have px: "iloc xs ?s ?e = map ((!) xs) [nat ?s..<nat ?e]"
    using s0 se en lx by (simp add: iloc_in_range)
  have py: "iloc ys ?s ?e = map ((!) ys) [nat ?s..<nat ?e]"
    using s0 se en ly by (simp add: iloc_in_range)
  have reg': "linear_regression_fit (map ((!) xs) [nat ?s..<nat ?e])
      (map ((!) ys) [nat ?s..<nat ?e]) = Inr ab"
    using reg px py by simp
  have before: "int i < int event_idx - \<bar>fst (event_window bt)\<bar> \<and> int i < win_start bt (int event_idx)"
    if "i \<in> set [nat ?s..<nat ?e]" for i
  proof -
    from that have "i < nat ?e" by simp
    then have "int i < ?e" by linarith
    then show ?thesis by (simp add: est_end_def win_start_def)
  qed
  have frame: "calculate_expected_return (bt\<lparr>market_data := Some md'\<rparr>) t (int event_idx)
      = Inr (Some ab)"
    if h: "columns md' = columns md \<and> take (nat ?e) (rows md') = take (nat ?e) (rows md)" for md'
  proof -
    from h getitem_take [OF _ _ ys] obtain ys' where
      ys': "getitem md' t = Inr ys'" and ty: "take (nat ?e) ys' = take (nat ?e) ys"
      by blast
    from h getitem_take [OF _ _ xs] obtain xs' where
      xs': "getitem md' (benchmark_ticker bt) = Inr xs'" and tx: "take (nat ?e) xs' = take (nat ?e) xs"
      by blast
    have "iloc xs' ?s ?e = iloc xs ?s ?e" using s0 e0 tx by (rule iloc_take)
    moreover have "iloc ys' ?s ?e = iloc ys ?s ?e" using s0 e0 ty by (rule iloc_take)
    ultimately show ?thesis
      using reg s0 ys' xs'
      by (simp add: calculate_expected_return_def est_start_def est_end_def)
  qed
  from e s s0 ys xs reg' before frame show ?thesis by blast
qed

text \<open>
  On the small store the event at position 3 is fitted on the positions 0 and 1; the
  store with the return at position 4 changed gives the same model.
\<close>

theorem estimation_window_witness:
  "calculate_expected_return demo_backtester ''X'' 3 = Inr (Some (1, 2))
   \<and> get_loc (index demo_store) 103 = Some 3
   \<and> est_start demo_backtester 3 = 0 \<and> est_end demo_backtester 3 = 2
   \<and> win_start demo_backtester 3 = 2
   \<and> linear_regression_fit [0, 1] [1, 3] = Inr (1, 2)
   \<and> take 2 (rows demo_store_changed) = take 2 (rows demo_store)
   \<and> rows demo_store_changed \<noteq> rows demo_store
   \<and> calculate_expected_return (demo_backtester\<lparr>market_data := Some demo_store_changed\<rparr>) ''X'' 3
       = Inr (Some (1, 2))"
proof -
  have w: "0 \<le> estimation_window demo_backtester" by (simp add: demo_defs demo_store_changed_def)
  have store: "market_data demo_backtester = Some demo_store" by (simp add: demo_defs demo_store_changed_def)
  have loc: "get_loc (index demo_store) 103 = Some 3" by (simp add: demo_defs demo_store_changed_def index_def)
  have fit: "calculate_expected_return demo_backtester ''X'' (int 3) = Inr (Some (1, 2))"
    by (simp add: demo_defs demo_store_changed_def engine_defs)
  have b: "est_start demo_backtester (int 3) = 0" "est_end demo_backtester (int 3) = 2"
    "win_start demo_backtester (int 3) = 2"
    by (simp_all add: demo_defs demo_store_changed_def est_start_def est_end_def win_start_def)
  have cols: "getitem demo_store ''X'' = Inr [1, 3, 2, 4, 1, 2]"
    "getitem demo_store (benchmark_ticker demo_backtester) = Inr [0, 1, 1, 2, 0, 1]"
    by (simp_all add: demo_defs demo_store_changed_def getitem_def)
  have same: "columns demo_store_changed = columns demo_store
      \<and> take (nat 2) (rows demo_store_changed) = take (nat 2) (rows demo_store)"
    by (simp add: demo_defs demo_store_changed_def)
  have differ: "rows demo_store_changed \<noteq> rows demo_store" by (simp add: demo_defs demo_store_changed_def)
  have up: "[0..<2] = [0, 1::nat]" by (simp add: upt_rec)
  note t = estimation_window_before_trade_window [OF w store loc fit, unfolded b]
  from t cols up have reg: "linear_regression_fit [0, 1] [1, 3] = Inr (1, 2)"
    by auto
  from t same
  have "calculate_expected_return (demo_backtester\<lparr>market_data := Some demo_store_changed\<rparr>)
          ''X'' (int 3) = Inr (Some (1, 2))"
    by blast
  with fit loc b reg same differ show ?thesis by simp
qed

text \<open>
  Claim C1. The estimation window is to be the positions from
  \<open>est_start = est_end - estimation_window\<close> up to, but not including,
  \<open>est_end = event_position - |lead_days|\<close>, so that no return at a position inside or
  after the trade window (\<open>index \<ge> event_position + lead_days\<close>) contributes to
  \<open>alpha\<close> or \<open>beta\<close>; the comment of the code says the same: the window
  stops before the event window starts. The code only tests \<open>est_start \<ge> 0\<close>. For an engine with the
  estimation window \<open>-4\<close> and the event window \<open>(-2, 1)\<close>, at the event of position 1,
  \<open>est_start = 3\<close> and \<open>est_end = -1\<close>: the slice \<^verbatim>\<open>[3:-1]\<close> of six values
  selects the positions 3 and 4, both after the trade window (positions \<open>-1\<close> to 2), and
  changing the security's return at position 4 alone changes the fitted model.
\<close>

theorem negative_estimation_window_look_ahead:
  "estimation_window (negative_window_backtester demo_store) = - 4
   \<and> get_loc (index demo_store) 101 = Some 1
   \<and> est_start (negative_window_backtester demo_store) 1 = 3
   \<and> est_end (negative_window_backtester demo_store) 1 = - 1
   \<and> win_start (negative_window_backtester demo_store) 1 = - 1
   \<and> win_end (negative_window_backtester demo_store) 1 = 2
   \<and> iloc [0, 1, 2, 3, 4, 5 :: nat] 3 (- 1) = [3, 4]
   \<and> columns demo_store_changed = columns demo_store
   \<and> take 4 (rows demo_store_changed) = take 4 (rows demo_store)
   \<and> drop 5 (rows demo_store_changed) = drop 5 (rows demo_store)
   \<and> calculate_expected_return (negative_window_backtester demo_store) ''X'' 1
       = Inr (Some (1, 3 / 2))
   \<and> calculate_expected_return (negative_window_backtester demo_store_changed) ''X'' 1
       = Inr (Some (7, - (3 / 2)))"
  by (simp add: demo_defs negative_window_backtester_def demo_store_changed_def engine_defs)

section \<open>The record of a processed event\<close>

text \<open>
  Claim C2, as amended. A processed event has a position in the date index and a fitted
  model \<open>(alpha, beta)\<close>; its record carries the ticker, date and quality score of the
  event; its CAR is the sum of \<open>realized - (alpha + beta * benchmark)\<close>, and its realized
  return the sum of the security's returns, over the positions that the positional slice
  \<^verbatim>\<open>[win_start : win_end + 1]\<close> selects from the stored series. When the trade window
  lies within the stored series (\<open>0 \<le> win_start \<le> win_end < length\<close>) these positions
  are the inclusive range from \<open>event_position + lead_days\<close> to
  \<open>event_position + lag_days\<close>.
\<close>

theorem car_over_trade_window:
  assumes store: "market_data bt = Some md" and rec: "process_event bt row = Inr (Some r)"
  shows "\<exists>event_idx alpha beta stock bench.
      get_loc (index md) (event_date row) = Some event_idx
    \<and> calculate_expected_return bt (ticker row) (int event_idx) = Inr (Some (alpha, beta))
    \<and> getitem md (ticker row) = Inr stock
    \<and> getitem md (benchmark_ticker bt) = Inr bench
    \<and> Ticker r = ticker row \<and> Event_Date r = event_date row
    \<and> Quality_Score r = quality_score row
    \<and> CAR r = (\<Sum>i\<leftarrow>[slice_bound (length (rows md)) (win_start bt (int event_idx))
                      ..<slice_bound (length (rows md)) (win_end bt (int event_idx) + 1)].
                 stock ! i - (alpha + beta * bench ! i))
    \<and> Real_Return r = (\<Sum>i\<leftarrow>[slice_bound (length (rows md)) (win_start bt (int event_idx))
                      ..<slice_bound (length (rows md)) (win_end bt (int event_idx) + 1)].
                 stock ! i)
    \<and> (0 \<le> win_start bt (int event_idx)
         \<and> win_start bt (int event_idx) \<le> win_end bt (int event_idx)
         \<and> win_end bt (int event_idx) < int (length (rows md))
        \<longrightarrow> CAR r = (\<Sum>i\<leftarrow>[nat (win_start bt (int event_idx))
                             ..<Suc (nat (win_end bt (int event_idx)))].
                        stock ! i - (alpha + beta * bench ! i))
          \<and> Real_Return r = (\<Sum>i\<leftarrow>[nat (win_start bt (int event_idx))
                             ..<Suc (nat (win_end bt (int event_idx)))]. stock ! i))"
proof -
  from process_event_Some [OF store rec] obtain event_idx alpha beta stock bench where
    loc: "get_loc (index md) (event_date row) = Some event_idx"
    and fit: "calculate_expected_return bt (ticker row) (int event_idx) = Inr (Some (alpha, beta))"
    and stock: "getitem md (ticker row) = Inr stock"
    and bench: "getitem md (benchmark_ticker bt) = Inr bench"
    and r: "r = \<lparr>Ticker = ticker row, Event_Date = event_date row,
            Quality_Score = quality_score row,
            CAR = sum_list (abnormal_returns
                    (iloc stock (win_start bt (int event_idx)) (win_end bt (int event_idx) + 1))
                    (expected_returns alpha beta
                       (iloc bench (win_start bt (int event_idx)) (win_end bt (int event_idx) + 1)))),
            Real_Return = sum_list
                    (iloc stock (win_start bt (int event_idx)) (win_end bt (int event_idx) + 1))\<rparr>"
    by blast
  let ?n = "length (rows md)"
  let ?ws = "win_start bt (int event_idx)"
  let ?we = "win_end bt (int event_idx)"
  have ls: "length stock = ?n" and lb: "length bench = ?n"
    using length_getitem [OF stock] length_getitem [OF bench] by simp_all
  have car: "CAR r = (\<Sum>i\<leftarrow>[slice_bound ?n ?ws..<slice_bound ?n (?we + 1)].
                 stock ! i - (alpha + beta * bench ! i))"
    using sum_abnormal_positions [of stock bench ?ws "?we + 1" alpha beta] r ls lb by simp
  have rr: "Real_Return r = (\<Sum>i\<leftarrow>[slice_bound ?n ?ws..<slice_bound ?n (?we + 1)]. stock ! i)"
    using sum_list_iloc_positions [of stock ?ws "?we + 1"] r ls by simp
  have inside: "CAR r = (\<Sum>i\<leftarrow>[nat ?ws..<Suc (nat ?we)]. stock ! i - (alpha + beta * bench ! i))
      \<and> Real_Return r = (\<Sum>i\<leftarrow>[nat ?ws..<Suc (nat ?we)]. stock ! i)"
    if "0 \<le> ?ws \<and> ?ws \<le> ?we \<and> ?we < int ?n"
  proof -
    have "slice_bound ?n ?ws = nat ?ws" using that by (simp add: slice_bound_in_range)
    moreover have "slice_bound ?n (?we + 1) = Suc (nat ?we)"
      using that by (simp add: slice_bound_in_range nat_add_distrib)
    ultimately show ?thesis using car rr by simp
  qed
  have pass: "Ticker r = ticker row \<and> Event_Date r = event_date row
      \<and> Quality_Score r = quality_score row"
    using r by simp
  from loc fit stock bench pass car rr inside show ?thesis by blast
qed

text \<open>
  On the small store the event of date 103 sits at position 3; its trade window is the
  positions 2 to 4, inside the six stored days, and its model is \<open>(1, 2)\<close>.
\<close>

theorem car_over_trade_window_witness:
  "process_event demo_backtester (demo_event ''X'' 103)
     = Inr (Some \<lparr>Ticker = ''X'', Event_Date = 103, Quality_Score = ''High'',
                  CAR = (4 - (1 + 2 * 2)) + (2 - (1 + 2 * 1)) + (1 - (1 + 2 * 0)),
                  Real_Return = 2 + 4 + 1\<rparr>)
   \<and> get_loc (index demo_store) 103 = Some 3
   \<and> win_start demo_backtester 3 = 2 \<and> win_end demo_backtester 3 = 4
   \<and> calculate_expected_return demo_backtester ''X'' 3 = Inr (Some (1, 2))"
proof -
  let ?ev = "demo_event ''X'' 103"
  have store: "market_data demo_backtester = Some demo_store" by (simp add: demo_defs)
  obtain r where r: "process_event demo_backtester ?ev = Inr (Some r)"
    by (simp add: demo_defs engine_defs)
  have loc: "get_loc (index demo_store) (event_date ?ev) = Some 3"
    by (simp add: demo_defs index_def)
  have fit: "calculate_expected_return demo_backtester ''X'' 3 = Inr (Some (1, 2))"
    by (simp add: demo_defs engine_defs)
  have cols: "getitem demo_store ''X'' = Inr [1, 3, 2, 4, 1, 2]"
    "getitem demo_store ''B'' = Inr [0, 1, 1, 2, 0, 1]"
    by (simp_all add: demo_defs getitem_def)
  have w: "win_start demo_backtester 3 = 2" "win_end demo_backtester 3 = 4"
    by (simp_all add: demo_defs win_start_def win_end_def)
  have n: "length (rows demo_store) = 6" by (simp add: demo_defs)
  have tk: "ticker ?ev = ''X''" "benchmark_ticker demo_backtester = ''B''"
    "event_date ?ev = 103" "quality_score ?ev = ''High''"
    by (simp_all add: demo_defs)
  have up: "[2..<5] = [2, 3, 4::nat]" by (simp add: upt_rec)
  from car_over_trade_window [OF store r] loc fit cols w n tk
  have "Ticker r = ''X'' \<and> Event_Date r = 103 \<and> Quality_Score r = ''High''
      \<and> CAR r = - 2 \<and> Real_Return r = 7"
    by (auto simp add: up)
  then have "r = \<lparr>Ticker = ''X'', Event_Date = 103, Quality_Score = ''High'',
                  CAR = - 2, Real_Return = 7\<rparr>"
    by (cases r) simp
  with r loc fit w tk show ?thesis by simp
qed

text \<open>
  The claim as stated fails for the event of date 105, the last stored day (position 5).
  Its trade window is the positions 4 to 6, the store has the positions 0 to 5, and the
  record that is emitted sums the two days 4 and 5.
\<close>

theorem clipped_window_counterexample:
  "process_event demo_backtester (demo_event ''X'' 105)
     = Inr (Some \<lparr>Ticker = ''X'', Event_Date = 105, Quality_Score = ''High'',
                  CAR = 1, Real_Return = 1 + 2\<rparr>)
   \<and> get_loc (index demo_store) 105 = Some 5
   \<and> win_start demo_backtester 5 = 4 \<and> win_end demo_backtester 5 = 6
   \<and> length (rows demo_store) = 6
   \<and> getitem demo_store ''X'' = Inr [1, 3, 2, 4, 1, 2]
   \<and> [slice_bound 6 (win_start demo_backtester 5)
        ..<slice_bound 6 (win_end demo_backtester 5 + 1)] = [4, 5]
   \<and> [nat (win_start demo_backtester 5)..<Suc (nat (win_end demo_backtester 5))] = [4, 5, 6]"
  by (simp add: demo_defs engine_defs upt_rec)

section \<open>Events that are skipped\<close>

text \<open>
  Claim C3. An event whose ticker is not a column of the store, or whose date is not in
  the date index, or whose position leaves
  \<open>event_position - |lead_days| - estimation_window < 0\<close>, makes the loop body
  \<^verbatim>\<open>continue\<close>: the body raises nothing and yields no record, the risk model of
  such a position is \<open>None\<close> and not an exception, and the run over a sequence that
  holds the event equals, in its result and in the state it leaves, the run over the
  sequence without it, so the events after it are processed as before.
\<close>

theorem skipped_event_leaves_no_trace:
  assumes store: "market_data bt = Some md"
    and skip: "ticker row \<notin> set (columns md)
       \<or> get_loc (index md) (event_date row) = None
       \<or> (\<exists>event_idx. get_loc (index md) (event_date row) = Some event_idx
            \<and> int event_idx - \<bar>fst (event_window bt)\<bar> - estimation_window bt < 0)"
  shows "process_event bt row = Inr None
    \<and> record_of bt row = None
    \<and> run_event_study bt (pre @ row # post) = run_event_study bt (pre @ post)
    \<and> (\<forall>event_idx. get_loc (index md) (event_date row) = Some event_idx
          \<and> int event_idx - \<bar>fst (event_window bt)\<bar> - estimation_window bt < 0
        \<longrightarrow> calculate_expected_return bt (ticker row) (int event_idx) = Inr None)"
proof -
  have body: "process_event bt row = Inr None"
    using store skip
    by (auto simp add: process_event_def insufficient_history_None)
  have "event_loop bt (pre @ row # post) = event_loop bt (pre @ post)"
    using body by (rule event_loop_skip)
  then have "run_event_study bt (pre @ row # post) = run_event_study bt (pre @ post)"
    by (simp add: run_event_study_def)
  with body show ?thesis
    by (simp add: record_of_def insufficient_history_None)
qed

text \<open>
  On the small store: an unknown ticker, a date that is no trading day, and the event at
  position 2, for which \<open>2 - 1 - 2 < 0\<close>. The run over three events, the middle one
  without enough history, equals the run over the other two and leaves two records.
\<close>

theorem skipped_event_witness:
  "process_event demo_backtester (demo_event ''ZZ'' 103) = Inr None
   \<and> process_event demo_backtester (demo_event ''X'' 99) = Inr None
   \<and> get_loc (index demo_store) 102 = Some 2
   \<and> calculate_expected_return demo_backtester ''X'' 2 = Inr None
   \<and> process_event demo_backtester (demo_event ''X'' 102) = Inr None
   \<and> run_event_study demo_backtester
        ([demo_event ''X'' 103] @ demo_event ''X'' 102 # [demo_event ''X'' 105])
      = run_event_study demo_backtester ([demo_event ''X'' 103] @ [demo_event ''X'' 105])
   \<and> length (results (snd (run_event_study demo_backtester
        [demo_event ''X'' 103, demo_event ''X'' 102, demo_event ''X'' 105]))) = 2"
proof -
  have store: "market_data demo_backtester = Some demo_store"
    by (simp add: demo_defs)
  have a: "ticker (demo_event ''ZZ'' 103) \<notin> set (columns demo_store)"
    by (simp add: demo_defs)
  have b: "get_loc (index demo_store) (event_date (demo_event ''X'' 99)) = None"
    by (simp add: demo_defs index_def)
  have c: "get_loc (index demo_store) (event_date (demo_event ''X'' 102)) = Some 2
      \<and> int 2 - \<bar>fst (event_window demo_backtester)\<bar> - estimation_window demo_backtester < 0"
    by (simp add: demo_defs index_def)
  have ra: "process_event demo_backtester (demo_event ''ZZ'' 103) = Inr None"
    using skipped_event_leaves_no_trace [OF store, of "demo_event ''ZZ'' 103"] a by blast
  have rb: "process_event demo_backtester (demo_event ''X'' 99) = Inr None"
    using skipped_event_leaves_no_trace [OF store, of "demo_event ''X'' 99"] b by blast
  have rc: "process_event demo_backtester (demo_event ''X'' 102) = Inr None
     \<and> run_event_study demo_backtester
        ([demo_event ''X'' 103] @ demo_event ''X'' 102 # [demo_event ''X'' 105])
      = run_event_study demo_backtester ([demo_event ''X'' 103] @ [demo_event ''X'' 105])
     \<and> calculate_expected_return demo_backtester (ticker (demo_event ''X'' 102)) (int 2) = Inr None"
    using skipped_event_leaves_no_trace [OF store, of "demo_event ''X'' 102"
        "[demo_event ''X'' 103]" "[demo_event ''X'' 105]"] c by blast
  have n: "length (results (snd (run_event_study demo_backtester
        [demo_event ''X'' 103, demo_event ''X'' 102, demo_event ''X'' 105]))) = 2"
    by (simp add: run_event_study_def demo_defs engine_defs)
  have t: "ticker (demo_event ''X'' 102) = ''X''" by (simp add: demo_defs)
  show ?thesis using ra rb rc c n t by (simp add: demo_event_def)
qed

section \<open>The records that a run returns\<close>

text \<open>
  Claim C4, as amended. A run that returns, returns the records that the instance held
  before the call followed by the records of the processable events of the input, one
  for each, in the order of the input: \<open>M\<close> new records for \<open>M\<close> processable events.
  On an instance that holds no records the result is exactly these \<open>M\<close> records. When
  the store holds the benchmark column and the estimation window is positive, the run
  returns, and the processable events are those whose ticker is a column of the store,
  whose date is in the date index, and whose position leaves
  \<open>event_position - |lead_days| - estimation_window \<ge> 0\<close>.
\<close>

theorem run_emits_processable_in_order:
  "(\<forall>recs bt'. run_event_study bt evs = (Inr recs, bt')
       \<longrightarrow> recs = results bt @ emitted bt evs \<and> results bt' = recs)
   \<and> emitted bt evs = map (the \<circ> record_of bt) (filter (processable bt) evs)
   \<and> length (emitted bt evs) = length (filter (processable bt) evs)
   \<and> (results bt = [] \<longrightarrow>
        (\<forall>recs bt'. run_event_study bt evs = (Inr recs, bt')
           \<longrightarrow> recs = map (the \<circ> record_of bt) (filter (processable bt) evs)
               \<and> length recs = length (filter (processable bt) evs)))
   \<and> (\<forall>md. market_data bt = Some md \<and> benchmark_ticker bt \<in> set (columns md)
          \<and> 0 < estimation_window bt
       \<longrightarrow> fst (run_event_study bt evs) = Inr (results bt @ emitted bt evs)
         \<and> (\<forall>row. processable bt row \<longleftrightarrow>
               ticker row \<in> set (columns md)
               \<and> (\<exists>event_idx. get_loc (index md) (event_date row) = Some event_idx
                     \<and> 0 \<le> int event_idx - \<bar>fst (event_window bt)\<bar>
                            - estimation_window bt)))"
proof -
  have a: "recs = results bt @ emitted bt evs \<and> results bt' = recs"
    if "run_event_study bt evs = (Inr recs, bt')" for recs bt'
    using run_event_study_Inr [OF that] by simp
  have b: "emitted bt evs = map (the \<circ> record_of bt) (filter (processable bt) evs)"
    by (rule emitted_filter)
  then have c: "length (emitted bt evs) = length (filter (processable bt) evs)"
    by simp
  have a0: "recs = map (the \<circ> record_of bt) (filter (processable bt) evs)
        \<and> length recs = length (filter (processable bt) evs)"
    if "results bt = []" "run_event_study bt evs = (Inr recs, bt')" for recs bt'
    using a [OF that(2)] that(1) b by simp
  have d: "fst (run_event_study bt evs) = Inr (results bt @ emitted bt evs)
      \<and> (\<forall>row. processable bt row \<longleftrightarrow>
               ticker row \<in> set (columns md)
               \<and> (\<exists>event_idx. get_loc (index md) (event_date row) = Some event_idx
                     \<and> 0 \<le> int event_idx - \<bar>fst (event_window bt)\<bar>
                            - estimation_window bt))"
    if h: "market_data bt = Some md \<and> benchmark_ticker bt \<in> set (columns md)
        \<and> 0 < estimation_window bt" for md
  proof -
    from h have store: "market_data bt = Some md"
      and bench: "benchmark_ticker bt \<in> set (columns md)"
      and w: "0 < estimation_window bt" by simp_all
    have "\<forall>row \<in> set evs. \<forall>e. process_event bt row \<noteq> Inl e"
      using process_event_no_error [OF store bench w] by blast
    from event_loop_no_error [OF this]
    have "fst (run_event_study bt evs) = Inr (results bt @ emitted bt evs)"
      by (simp add: run_event_study_def)
    with processable_iff [OF store bench w] show ?thesis by blast
  qed
  show ?thesis
    apply (intro conjI allI impI)
    subgoal for recs bt' using a [of recs bt'] by simp
    subgoal for recs bt' using a [of recs bt'] by simp
    subgoal by (rule b)
    subgoal by (rule c)
    subgoal for recs bt' using a0 [of recs bt'] by simp
    subgoal for recs bt' using a0 [of recs bt'] by simp
    subgoal for md using d [of md] by simp
    subgoal for md row using d [of md] by blast
    done
qed

text \<open>
  Four events on the small store, the second without enough history and the third with
  an unknown ticker: the run returns the records of the first and the last.
\<close>

theorem run_emits_processable_witness:
  "fst (run_event_study demo_backtester
          [demo_event ''X'' 103, demo_event ''X'' 102, demo_event ''ZZ'' 103, demo_event ''X'' 105])
     = Inr [\<lparr>Ticker = ''X'', Event_Date = 103, Quality_Score = ''High'',
              CAR = - 2, Real_Return = 7\<rparr>,
            \<lparr>Ticker = ''X'', Event_Date = 105, Quality_Score = ''High'',
              CAR = 1, Real_Return = 3\<rparr>]
   \<and> filter (processable demo_backtester)
          [demo_event ''X'' 103, demo_event ''X'' 102, demo_event ''ZZ'' 103, demo_event ''X'' 105]
     = [demo_event ''X'' 103, demo_event ''X'' 105]
   \<and> results demo_backtester = []
   \<and> market_data demo_backtester = Some demo_store
   \<and> benchmark_ticker demo_backtester \<in> set (columns demo_store)
   \<and> 0 < estimation_window demo_backtester"
proof -
  let ?evs = "[demo_event ''X'' 103, demo_event ''X'' 102, demo_event ''ZZ'' 103,
               demo_event ''X'' 105]"
  have cfg: "market_data demo_backtester = Some demo_store
             \<and> benchmark_ticker demo_backtester \<in> set (columns demo_store)
             \<and> 0 < estimation_window demo_backtester"
    by (simp add: demo_defs)
  have fresh: "results demo_backtester = []" by (simp add: demo_defs)
  have loc: "get_loc (index demo_store) 103 = Some 3" "get_loc (index demo_store) 102 = Some 2"
    "get_loc (index demo_store) 105 = Some 5"
    by (simp_all add: demo_defs index_def)
  have ev: "ticker (demo_event t d) = t" "event_date (demo_event t d) = d" for t d
    by (simp_all add: demo_defs)
  have cw: "columns demo_store = [''X'', ''B'']" "fst (event_window demo_backtester) = - 1"
    "estimation_window demo_backtester = 2"
    by (simp_all add: demo_defs)
  have r: "the (record_of demo_backtester (demo_event ''X'' 103))
      = \<lparr>Ticker = ''X'', Event_Date = 103, Quality_Score = ''High'', CAR = - 2, Real_Return = 7\<rparr>"
    "the (record_of demo_backtester (demo_event ''X'' 105))
      = \<lparr>Ticker = ''X'', Event_Date = 105, Quality_Score = ''High'', CAR = 1, Real_Return = 3\<rparr>"
    by (simp_all add: record_of_def demo_defs engine_defs)
  from run_emits_processable_in_order [of demo_backtester ?evs] cfg
  have run: "fst (run_event_study demo_backtester ?evs)
          = Inr (results demo_backtester @ emitted demo_backtester ?evs)"
    and em: "emitted demo_backtester ?evs
          = map (the \<circ> record_of demo_backtester) (filter (processable demo_backtester) ?evs)"
    and p: "\<And>row. processable demo_backtester row \<longleftrightarrow>
               ticker row \<in> set (columns demo_store)
               \<and> (\<exists>event_idx. get_loc (index demo_store) (event_date row) = Some event_idx
                     \<and> 0 \<le> int event_idx - \<bar>fst (event_window demo_backtester)\<bar>
                            - estimation_window demo_backtester)"
    by blast+
  have f: "filter (processable demo_backtester) ?evs = [demo_event ''X'' 103, demo_event ''X'' 105]"
    by (simp add: p ev cw loc)
  from run em f r fresh cfg show ?thesis by simp
qed

text \<open>
  The claim as stated fails on an instance that has run before: of the two events
  submitted to the second run one is processable, and the run returns two records.
\<close>

theorem run_returns_more_than_processable_counterexample:
  "fst (run_event_study (snd (run_event_study demo_backtester [demo_event ''X'' 103]))
          [demo_event ''ZZ'' 103, demo_event ''X'' 105])
     = Inr [\<lparr>Ticker = ''X'', Event_Date = 103, Quality_Score = ''High'',
              CAR = - 2, Real_Return = 7\<rparr>,
            \<lparr>Ticker = ''X'', Event_Date = 105, Quality_Score = ''High'',
              CAR = 1, Real_Return = 3\<rparr>]
   \<and> filter (processable (snd (run_event_study demo_backtester [demo_event ''X'' 103])))
          [demo_event ''ZZ'' 103, demo_event ''X'' 105]
     = [demo_event ''X'' 105]"
  by (simp add: run_defs processable_def demo_defs engine_defs)

section \<open>State shared between runs\<close>

text \<open>
  Claim C5, as amended. The result list is an attribute of the instance: it is empty on
  a new instance, and \<^verbatim>\<open>fetch_market_data\<close> leaves it as it is on every instance.
  Each run leaves the sequence that it returned on the instance, and the next run on the
  same instance returns that sequence followed by the records of its own processable
  events.
\<close>

theorem results_accumulate_across_runs:
  assumes first: "run_event_study bt evs1 = (Inr recs1, bt1)"
    and second: "run_event_study bt1 evs2 = (Inr recs2, bt2)"
  shows "recs1 = results bt @ emitted bt evs1
    \<and> results bt1 = recs1
    \<and> recs2 = recs1 @ emitted bt evs2
    \<and> results bt2 = recs2
    \<and> results (init_backtester benchmark w ew) = []
    \<and> results (fetch_market_data bt0 data) = results bt0
    \<and> results (fetch_market_data bt1 data) = recs1"
proof -
  from run_event_study_Inr [OF first]
  have 1: "bt1 = bt\<lparr>results := results bt @ emitted bt evs1\<rparr>"
    and r1: "recs1 = results bt @ emitted bt evs1" by simp_all
  from run_event_study_Inr [OF second]
  have 2: "bt2 = bt1\<lparr>results := results bt1 @ emitted bt1 evs2\<rparr>"
    and r2: "recs2 = results bt1 @ emitted bt1 evs2" by simp_all
  have e: "emitted bt1 evs2 = emitted bt evs2" unfolding 1 by simp
  have s1: "results bt1 = recs1" unfolding 1 r1 by simp
  have s2: "results bt2 = recs2" unfolding 2 r2 by simp
  have i: "results (init_backtester benchmark w ew) = []"
    by (simp add: init_backtester_def)
  have f: "results (fetch_market_data b d) = results b" for b d
    by (simp add: fetch_market_data_def)
  from r1 s1 r2 e s2 i f show ?thesis by simp
qed

text \<open>
  Two runs in a row on the small store, each over one processable event; loading market
  data after the first run keeps its record.
\<close>

theorem results_accumulate_witness:
  "run_event_study demo_backtester [demo_event ''X'' 103]
     = (Inr [\<lparr>Ticker = ''X'', Event_Date = 103, Quality_Score = ''High'',
               CAR = - 2, Real_Return = 7\<rparr>],
        demo_backtester\<lparr>results := [\<lparr>Ticker = ''X'', Event_Date = 103,
               Quality_Score = ''High'', CAR = - 2, Real_Return = 7\<rparr>]\<rparr>)
   \<and> (\<exists>recs2 bt2.
        run_event_study
          (demo_backtester\<lparr>results := [\<lparr>Ticker = ''X'', Event_Date = 103,
               Quality_Score = ''High'', CAR = - 2, Real_Return = 7\<rparr>]\<rparr>)
          [demo_event ''X'' 105] = (Inr recs2, bt2)
        \<and> recs2 = [\<lparr>Ticker = ''X'', Event_Date = 103, Quality_Score = ''High'',
               CAR = - 2, Real_Return = 7\<rparr>] @ emitted demo_backtester [demo_event ''X'' 105]
        \<and> results bt2 = recs2)
   \<and> results (fetch_market_data
        (demo_backtester\<lparr>results := [\<lparr>Ticker = ''X'', Event_Date = 103,
               Quality_Score = ''High'', CAR = - 2, Real_Return = 7\<rparr>]\<rparr>) demo_prices)
       = [\<lparr>Ticker = ''X'', Event_Date = 103, Quality_Score = ''High'',
               CAR = - 2, Real_Return = 7\<rparr>]"
proof -
  let ?r = "\<lparr>Ticker = ''X'', Event_Date = 103, Quality_Score = ''High'',
               CAR = - 2, Real_Return = 7\<rparr>"
  let ?bt1 = "demo_backtester\<lparr>results := [?r]\<rparr>"
  have first: "run_event_study demo_backtester [demo_event ''X'' 103] = (Inr [?r], ?bt1)"
    by (simp add: run_defs demo_defs engine_defs)
  obtain recs2 bt2 where
    second: "run_event_study ?bt1 [demo_event ''X'' 105] = (Inr recs2, bt2)"
    by (simp add: run_defs demo_defs engine_defs)
  from results_accumulate_across_runs [OF first second, of _ _ _ _ demo_prices]
  have "recs2 = [?r] @ emitted demo_backtester [demo_event ''X'' 105] \<and> results bt2 = recs2
      \<and> results (fetch_market_data ?bt1 demo_prices) = [?r]"
    by simp
  with first second show ?thesis by blast
qed

text \<open>
  The claim as stated fails: after a run over one event, a run over no event at all
  returns the record of the earlier run.
\<close>

theorem earlier_records_reappear_counterexample:
  "results demo_backtester = []
   \<and> fst (run_event_study (snd (run_event_study demo_backtester [demo_event ''X'' 103])) [])
     = Inr [\<lparr>Ticker = ''X'', Event_Date = 103, Quality_Score = ''High'',
              CAR = - 2, Real_Return = 7\<rparr>]"
  by (simp add: run_defs demo_defs engine_defs)

section \<open>Trade windows that leave the stored series\<close>

text \<open>
  Claim C6, as amended. For every event that has a position in the date index and a
  fitted model, the loop body raises nothing, whatever the bounds of the trade window:
  it emits a record, and the run over that event returns it. When the window ends at or
  beyond the series length (with \<open>win_start \<ge> 0\<close>) the record sums the stored positions
  from \<open>win_start\<close> to the last one; when \<open>win_start\<close> is negative the slice starts at
  the position \<open>win_start + length\<close>, counted from the end of the series.
\<close>

theorem out_of_range_window_is_clipped:
  assumes store: "market_data bt = Some md"
    and member: "ticker row \<in> set (columns md)"
    and loc: "get_loc (index md) (event_date row) = Some event_idx"
    and fit: "calculate_expected_return bt (ticker row) (int event_idx) = Inr (Some (alpha, beta))"
  shows "\<exists>r stock bench.
      process_event bt row = Inr (Some r)
    \<and> fst (run_event_study bt [row]) = Inr (results bt @ [r])
    \<and> getitem md (ticker row) = Inr stock
    \<and> getitem md (benchmark_ticker bt) = Inr bench
    \<and> (0 \<le> win_start bt (int event_idx) \<and> int (length (rows md)) \<le> win_end bt (int event_idx)
        \<longrightarrow> Real_Return r
              = (\<Sum>i\<leftarrow>[nat (win_start bt (int event_idx))..<length (rows md)]. stock ! i)
          \<and> CAR r
              = (\<Sum>i\<leftarrow>[nat (win_start bt (int event_idx))..<length (rows md)].
                   stock ! i - (alpha + beta * bench ! i)))
    \<and> (win_start bt (int event_idx) < 0
        \<longrightarrow> Real_Return r
              = (\<Sum>i\<leftarrow>[nat (win_start bt (int event_idx) + int (length (rows md)))
                        ..<slice_bound (length (rows md)) (win_end bt (int event_idx) + 1)].
                   stock ! i)
          \<and> CAR r
              = (\<Sum>i\<leftarrow>[nat (win_start bt (int event_idx) + int (length (rows md)))
                        ..<slice_bound (length (rows md)) (win_end bt (int event_idx) + 1)].
                   stock ! i - (alpha + beta * bench ! i)))"
proof -
  from getitem_member [OF member] obtain stock where stock: "getitem md (ticker row) = Inr stock"
    by blast
  from calculate_expected_return_Some [OF fit] store obtain bench where
    bench: "getitem md (benchmark_ticker bt) = Inr bench"
    by auto
  let ?n = "length (rows md)"
  let ?ws = "win_start bt (int event_idx)"
  let ?we = "win_end bt (int event_idx)"
  let ?r = "\<lparr>Ticker = ticker row, Event_Date = event_date row,
            Quality_Score = quality_score row,
            CAR = sum_list (abnormal_returns (iloc stock ?ws (?we + 1))
                    (expected_returns alpha beta (iloc bench ?ws (?we + 1)))),
            Real_Return = sum_list (iloc stock ?ws (?we + 1))\<rparr>"
  have body: "process_event bt row = Inr (Some ?r)"
    using store member loc fit stock bench by (rule process_event_emits)
  have run: "fst (run_event_study bt [row]) = Inr (results bt @ [?r])"
    using body by (simp add: run_event_study_def)
  have ls: "length stock = ?n" and lb: "length bench = ?n"
    using length_getitem [OF stock] length_getitem [OF bench] by simp_all
  have car: "CAR ?r = (\<Sum>i\<leftarrow>[slice_bound ?n ?ws..<slice_bound ?n (?we + 1)].
                 stock ! i - (alpha + beta * bench ! i))"
    using sum_abnormal_positions [of stock bench ?ws "?we + 1" alpha beta] ls lb by simp
  have rr: "Real_Return ?r = (\<Sum>i\<leftarrow>[slice_bound ?n ?ws..<slice_bound ?n (?we + 1)]. stock ! i)"
    using sum_list_iloc_positions [of stock ?ws "?we + 1"] ls by simp
  have beyond: "Real_Return ?r = (\<Sum>i\<leftarrow>[nat ?ws..<?n]. stock ! i)
      \<and> CAR ?r = (\<Sum>i\<leftarrow>[nat ?ws..<?n]. stock ! i - (alpha + beta * bench ! i))"
    if h: "0 \<le> ?ws \<and> int ?n \<le> ?we"
  proof -
    have hi: "slice_bound ?n (?we + 1) = ?n" using h by (simp add: slice_bound_beyond)
    have lo: "slice_bound ?n ?ws = min (nat ?ws) ?n" using h by (simp add: slice_bound_nonneg)
    have e: "[min (nat ?ws) ?n..<?n] = [nat ?ws..<?n]" by (simp add: min_def)
    show ?thesis unfolding car rr hi lo e by simp
  qed
  have before: "Real_Return ?r
        = (\<Sum>i\<leftarrow>[nat (?ws + int ?n)..<slice_bound ?n (?we + 1)]. stock ! i)
      \<and> CAR ?r = (\<Sum>i\<leftarrow>[nat (?ws + int ?n)..<slice_bound ?n (?we + 1)].
                   stock ! i - (alpha + beta * bench ! i))"
    if h: "?ws < 0"
  proof -
    have lo: "slice_bound ?n ?ws = nat (?ws + int ?n)" using h by (rule slice_bound_negative)
    show ?thesis unfolding car rr lo by simp
  qed
  from body run stock bench beyond before show ?thesis by blast
qed

text \<open>
  The event on the last day of the small store (window positions 4 to 6 of a series of
  length 6), and the event of date 101 under the engine with a negative estimation
  window, whose trade window starts at position \<open>-1\<close>: the slice \<^verbatim>\<open>[-1:3]\<close> of six
  values is empty.
\<close>

theorem out_of_range_window_witness:
  "(\<exists>r. process_event demo_backtester (demo_event ''X'' 105) = Inr (Some r)
       \<and> Real_Return r = 1 + 2
       \<and> CAR r = (1 - (0 + 2 * 0)) + (2 - (0 + 2 * 1)))
   \<and> get_loc (index demo_store) 105 = Some 5
   \<and> calculate_expected_return demo_backtester ''X'' 5 = Inr (Some (0, 2))
   \<and> 0 \<le> win_start demo_backtester 5
   \<and> int (length (rows demo_store)) \<le> win_end demo_backtester 5
   \<and> (\<exists>r. process_event (negative_window_backtester demo_store) (demo_event ''X'' 101)
            = Inr (Some r)
         \<and> Real_Return r = 0 \<and> CAR r = 0)
   \<and> get_loc (index demo_store) 101 = Some 1
   \<and> calculate_expected_return (negative_window_backtester demo_store) ''X'' 1
       = Inr (Some (1, 3 / 2))
   \<and> win_start (negative_window_backtester demo_store) 1 = - 1
   \<and> win_end (negative_window_backtester demo_store) 1 = 2"
proof -
  let ?ev = "demo_event ''X'' 105"
  have store: "market_data demo_backtester = Some demo_store" by (simp add: demo_defs negative_window_backtester_def)
  have member: "ticker ?ev \<in> set (columns demo_store)" by (simp add: demo_defs negative_window_backtester_def)
  have loc: "get_loc (index demo_store) (event_date ?ev) = Some 5"
    by (simp add: demo_defs negative_window_backtester_def index_def)
  have fit: "calculate_expected_return demo_backtester (ticker ?ev) (int 5) = Inr (Some (0, 2))"
    by (simp add: demo_defs negative_window_backtester_def engine_defs)
  have cols: "getitem demo_store (ticker ?ev) = Inr [1, 3, 2, 4, 1, 2]"
    "getitem demo_store (benchmark_ticker demo_backtester) = Inr [0, 1, 1, 2, 0, 1]"
    by (simp_all add: demo_defs negative_window_backtester_def getitem_def)
  have w: "win_start demo_backtester (int 5) = 4" "win_end demo_backtester (int 5) = 6"
    by (simp_all add: demo_defs negative_window_backtester_def win_start_def win_end_def)
  have n: "length (rows demo_store) = 6" by (simp add: demo_defs negative_window_backtester_def)
  have up: "[4..<6] = [4, 5::nat]" by (simp add: upt_rec)
  from out_of_range_window_is_clipped [OF store member loc fit] obtain r stock bench where
    "process_event demo_backtester ?ev = Inr (Some r)"
    "getitem demo_store (ticker ?ev) = Inr stock"
    "getitem demo_store (benchmark_ticker demo_backtester) = Inr bench"
    "0 \<le> win_start demo_backtester (int 5)
       \<and> int (length (rows demo_store)) \<le> win_end demo_backtester (int 5)
     \<longrightarrow> Real_Return r
           = (\<Sum>i\<leftarrow>[nat (win_start demo_backtester (int 5))..<length (rows demo_store)]. stock ! i)
       \<and> CAR r
           = (\<Sum>i\<leftarrow>[nat (win_start demo_backtester (int 5))..<length (rows demo_store)].
                   stock ! i - (0 + 2 * bench ! i))"
    by blast
  with cols w n up
  have "process_event demo_backtester ?ev = Inr (Some r) \<and> Real_Return r = 1 + 2
       \<and> CAR r = (1 - (0 + 2 * 0)) + (2 - (0 + 2 * 1))"
    by simp
  then have late: "\<exists>r. process_event demo_backtester ?ev = Inr (Some r) \<and> Real_Return r = 1 + 2
       \<and> CAR r = (1 - (0 + 2 * 0)) + (2 - (0 + 2 * 1))"
    by blast
  let ?ng = "negative_window_backtester demo_store"
  let ?ev1 = "demo_event ''X'' 101"
  have store1: "market_data ?ng = Some demo_store" by (simp add: demo_defs negative_window_backtester_def)
  have member1: "ticker ?ev1 \<in> set (columns demo_store)" by (simp add: demo_defs negative_window_backtester_def)
  have loc1: "get_loc (index demo_store) (event_date ?ev1) = Some 1"
    by (simp add: demo_defs negative_window_backtester_def index_def)
  have fit1: "calculate_expected_return ?ng (ticker ?ev1) (int 1) = Inr (Some (1, 3 / 2))"
    by (simp add: demo_defs negative_window_backtester_def engine_defs)
  have w1: "win_start ?ng (int 1) = - 1" "win_end ?ng (int 1) = 2"
    by (simp_all add: demo_defs negative_window_backtester_def win_start_def win_end_def)
  have sb: "slice_bound 6 3 = 3" by (simp add: slice_bound_def)
  from out_of_range_window_is_clipped [OF store1 member1 loc1 fit1] obtain r1 stock1 bench1 where
    "process_event ?ng ?ev1 = Inr (Some r1)"
    "win_start ?ng (int 1) < 0
     \<longrightarrow> Real_Return r1
           = (\<Sum>i\<leftarrow>[nat (win_start ?ng (int 1) + int (length (rows demo_store)))
                     ..<slice_bound (length (rows demo_store)) (win_end ?ng (int 1) + 1)].
                stock1 ! i)
       \<and> CAR r1
           = (\<Sum>i\<leftarrow>[nat (win_start ?ng (int 1) + int (length (rows demo_store)))
                     ..<slice_bound (length (rows demo_store)) (win_end ?ng (int 1) + 1)].
                stock1 ! i - (1 + 3 / 2 * bench1 ! i))"
    by blast
  with w1 n sb have "process_event ?ng ?ev1 = Inr (Some r1) \<and> Real_Return r1 = 0 \<and> CAR r1 = 0"
    by simp
  then have early: "\<exists>r. process_event ?ng ?ev1 = Inr (Some r) \<and> Real_Return r = 0 \<and> CAR r = 0"
    by blast
  have ev: "ticker ?ev = ''X''" "event_date ?ev = 105" "ticker ?ev1 = ''X''" "event_date ?ev1 = 101"
    by (simp_all add: demo_defs negative_window_backtester_def)
  from late early loc fit w n loc1 fit1 w1 ev show ?thesis by simp
qed

text \<open>
  The claim as stated fails for the event on the last stored day: its window ends at
  position 6 of a series of length 6, and the run returns a record instead of raising.
\<close>

theorem no_out_of_range_error_counterexample:
  "win_end demo_backtester 5 = 6
   \<and> length (rows demo_store) = 6
   \<and> run_event_study demo_backtester [demo_event ''X'' 105]
     = (Inr [\<lparr>Ticker = ''X'', Event_Date = 105, Quality_Score = ''High'',
              CAR = 1, Real_Return = 3\<rparr>],
        demo_backtester\<lparr>results := [\<lparr>Ticker = ''X'', Event_Date = 105,
              Quality_Score = ''High'', CAR = 1, Real_Return = 3\<rparr>]\<rparr>)"
  by (simp add: run_event_study_def demo_defs engine_defs)

section \<open>The store that fetch_market_data builds\<close>

text \<open>
  Claim C7. The store built from a (rectangular) price table has the columns of the
  table and one value per column in every row, so all symbols share the one date index.
  That index holds exactly the dates of the rows of the log-return table in which no
  return is missing: every other row is dropped. Hence every date that a slice of the
  index exposes, over any range, is a date on which every tracked symbol has a price in
  the raw table, and the slice of any symbol's column over that range has one value for
  each of these dates.
\<close>

theorem store_alignment:
  assumes rect: "rectangular data"
  shows "columns (log_return_frame data) = columns data
    \<and> rectangular (log_return_frame data)
    \<and> index (log_return_frame data)
        = map fst (filter (\<lambda>r. None \<notin> set (snd r))
            (log_returns (replicate (length (columns data)) None) (rows data)))
    \<and> (\<forall>k a b. k < length (columns data)
          \<longrightarrow> set (iloc (index (log_return_frame data)) a b) \<subseteq> set (raw_dates data k))
    \<and> (\<forall>name col a b. getitem (log_return_frame data) name = Inr col
          \<longrightarrow> length (iloc col a b) = length (iloc (index (log_return_frame data)) a b))"
proof -
  let ?md = "log_return_frame data"
  have c: "columns ?md = columns data" by (simp add: log_return_frame_def)
  have i: "index ?md = map fst (filter (\<lambda>r. None \<notin> set (snd r))
            (log_returns (replicate (length (columns data)) None) (rows data)))"
    by (simp add: index_def log_return_frame_def dropna_def comp_def)
  have s: "set (iloc (index ?md) a b) \<subseteq> set (raw_dates data k)"
    if "k < length (columns data)" for k a b
    using set_iloc_subset [of "index ?md" a b] stored_date_has_prices [OF rect _ that]
    by blast
  have l: "length (iloc col a b) = length (iloc (index ?md) a b)"
    if "getitem ?md name = Inr col" for name col a b
    using length_getitem [OF that] by (simp add: length_iloc length_index)
  from c rectangular_log_return_frame [OF rect] i s l show ?thesis by blast
qed

text \<open>
  Four days of prices, the benchmark missing on the second: only the fourth day has a
  return for both symbols.
\<close>

theorem store_alignment_witness:
  "rectangular demo_prices
   \<and> index (log_return_frame demo_prices) = [103]
   \<and> raw_dates demo_prices 0 = [100, 101, 102, 103]
   \<and> raw_dates demo_prices 1 = [100, 102, 103]
   \<and> set (iloc (index (log_return_frame demo_prices)) 0 1) \<subseteq> set (raw_dates demo_prices 1)
   \<and> getitem (log_return_frame demo_prices) ''B'' = Inr [0]
   \<and> length (iloc [0::real] 0 1) = length (iloc (index (log_return_frame demo_prices)) 0 1)"
proof -
  have rect: "rectangular demo_prices"
    by (simp add: rectangular_def demo_prices_def)
  have i: "index (log_return_frame demo_prices) = [103]"
    by (simp add: index_def log_return_frame_def dropna_def demo_prices_def)
  have r: "raw_dates demo_prices 0 = [100, 101, 102, 103]" "raw_dates demo_prices 1 = [100, 102, 103]"
    by (simp_all add: raw_dates_def demo_prices_def)
  have g: "getitem (log_return_frame demo_prices) ''B'' = Inr [0]"
    by (simp add: getitem_def log_return_frame_def dropna_def demo_prices_def)
  have k: "(1::nat) < length (columns demo_prices)" by (simp add: demo_prices_def)
  note t = store_alignment [OF rect]
  from t k have "set (iloc (index (log_return_frame demo_prices)) 0 1)
      \<subseteq> set (raw_dates demo_prices 1)"
    by blast
  moreover from t g
  have "length (iloc [0::real] 0 1) = length (iloc (index (log_return_frame demo_prices)) 0 1)"
    by blast
  ultimately show ?thesis using rect i r g by simp
qed

section \<open>Degenerate abnormal returns\<close>

text \<open>
  Claim C8, as amended. For every processed event the realized return of the record is
  the sum of the security's returns that the trade-window slice holds. If the fitted
  model is \<open>alpha = 0\<close> and \<open>beta = 0\<close>, the CAR equals that sum. If every benchmark
  return in the slice is zero, the expected return is \<open>alpha\<close> on every day of the
  slice and the CAR is the sum of \<open>realized - alpha\<close> over these days, which in exact
  arithmetic is the realized return minus \<open>alpha\<close> times the number of days that the
  slice holds. That number is the number of days of the trade window,
  \<open>win_end - win_start + 1\<close>, when the window lies within the stored series
  (\<open>0 \<le> win_start \<le> win_end < length\<close>).
\<close>

theorem car_degenerate:
  assumes store: "market_data bt = Some md" and rec: "process_event bt row = Inr (Some r)"
  shows "\<exists>event_idx alpha beta stock bench.
      get_loc (index md) (event_date row) = Some event_idx
    \<and> calculate_expected_return bt (ticker row) (int event_idx) = Inr (Some (alpha, beta))
    \<and> getitem md (ticker row) = Inr stock
    \<and> getitem md (benchmark_ticker bt) = Inr bench
    \<and> Real_Return r
         = sum_list (iloc stock (win_start bt (int event_idx)) (win_end bt (int event_idx) + 1))
    \<and> (alpha = 0 \<and> beta = 0 \<longrightarrow> CAR r = Real_Return r)
    \<and> ((\<forall>m \<in> set (iloc bench (win_start bt (int event_idx)) (win_end bt (int event_idx) + 1)).
           m = 0)
        \<longrightarrow> expected_returns alpha beta
              (iloc bench (win_start bt (int event_idx)) (win_end bt (int event_idx) + 1))
            = replicate
                (length (iloc stock (win_start bt (int event_idx)) (win_end bt (int event_idx) + 1)))
                alpha
          \<and> CAR r = (\<Sum>x\<leftarrow>iloc stock (win_start bt (int event_idx))
                              (win_end bt (int event_idx) + 1). x - alpha)
          \<and> CAR r = Real_Return r - alpha * real
                (length (iloc stock (win_start bt (int event_idx)) (win_end bt (int event_idx) + 1))))
    \<and> (0 \<le> win_start bt (int event_idx)
         \<and> win_start bt (int event_idx) \<le> win_end bt (int event_idx)
         \<and> win_end bt (int event_idx) < int (length (rows md))
        \<longrightarrow> length (iloc stock (win_start bt (int event_idx)) (win_end bt (int event_idx) + 1))
            = nat (win_end bt (int event_idx) - win_start bt (int event_idx) + 1))"
proof -
  from process_event_Some [OF store rec] obtain event_idx alpha beta stock bench where
    loc: "get_loc (index md) (event_date row) = Some event_idx"
    and fit: "calculate_expected_return bt (ticker row) (int event_idx) = Inr (Some (alpha, beta))"
    and stock: "getitem md (ticker row) = Inr stock"
    and bench: "getitem md (benchmark_ticker bt) = Inr bench"
    and r: "r = \<lparr>Ticker = ticker row, Event_Date = event_date row,
            Quality_Score = quality_score row,
            CAR = sum_list (abnormal_returns
                    (iloc stock (win_start bt (int event_idx)) (win_end bt (int event_idx) + 1))
                    (expected_returns alpha beta
                       (iloc bench (win_start bt (int event_idx)) (win_end bt (int event_idx) + 1)))),
            Real_Return = sum_list
                    (iloc stock (win_start bt (int event_idx)) (win_end bt (int event_idx) + 1))\<rparr>"
    by blast
  let ?xs = "iloc stock (win_start bt (int event_idx)) (win_end bt (int event_idx) + 1)"
  let ?ms = "iloc bench (win_start bt (int event_idx)) (win_end bt (int event_idx) + 1)"
  have ls: "length stock = length (rows md)" using length_getitem [OF stock] .
  have len: "length ?xs = length ?ms"
    using length_getitem [OF stock] length_getitem [OF bench] by (simp add: length_iloc)
  have car: "CAR r = sum_list ?xs - (alpha * real (length ?ms) + beta * sum_list ?ms)"
    using sum_abnormal_returns [OF len] r by simp
  have rr: "Real_Return r = sum_list ?xs" using r by simp
  have zero: "CAR r = Real_Return r" if "alpha = 0 \<and> beta = 0"
    using that car rr by simp
  have flat: "expected_returns alpha beta ?ms = replicate (length ?xs) alpha
      \<and> CAR r = (\<Sum>x\<leftarrow>?xs. x - alpha)
      \<and> CAR r = Real_Return r - alpha * real (length ?xs)"
    if z: "\<forall>m \<in> set ?ms. m = 0"
  proof -
    have "sum_list ?ms = 0" using z by (rule sum_list_all_zero)
    moreover have "expected_returns alpha beta ?ms = replicate (length ?ms) alpha"
      using z by (rule expected_returns_flat)
    moreover have "CAR r = (\<Sum>x\<leftarrow>?xs. x - alpha)"
      using sum_abnormal_flat [OF len z, of alpha beta] r by simp
    ultimately show ?thesis using car rr len by simp
  qed
  have inside: "length ?xs = nat (win_end bt (int event_idx) - win_start bt (int event_idx) + 1)"
    if h: "0 \<le> win_start bt (int event_idx)
         \<and> win_start bt (int event_idx) \<le> win_end bt (int event_idx)
         \<and> win_end bt (int event_idx) < int (length (rows md))"
  proof -
    have "length ?xs = nat (win_end bt (int event_idx) + 1 - win_start bt (int event_idx))"
      using h ls by (intro length_iloc_in_range) simp_all
    then show ?thesis by (simp add: algebra_simps)
  qed
  from loc fit stock bench rr zero flat inside show ?thesis by blast
qed

text \<open>
  Two stores at the event of date 103, whose trade window (positions 2 to 4) lies within
  the five stored days: in the first the model is \<open>(0, 0)\<close> and the CAR equals the
  realized return \<open>3 - 1 + 2\<close>; in the second the model is \<open>(0.001, 1.2)\<close>, the
  benchmark is flat over the three days of the window, and the CAR is the realized
  return minus \<open>0.001 * 3\<close>.
\<close>

theorem car_degenerate_witness:
  "(\<exists>r. process_event (demo_backtester_on zero_model_store) (demo_event ''X'' 103) = Inr (Some r)
        \<and> Real_Return r = 3 + - 1 + 2 \<and> CAR r = Real_Return r)
   \<and> calculate_expected_return (demo_backtester_on zero_model_store) ''X'' 3 = Inr (Some (0, 0))
   \<and> (\<exists>r. process_event (demo_backtester_on flat_benchmark_store) (demo_event ''X'' 103)
          = Inr (Some r)
        \<and> Real_Return r = 3 + - 1 + 2
        \<and> CAR r = (3 - 1 / 1000) + (- 1 - 1 / 1000) + (2 - 1 / 1000)
        \<and> CAR r = Real_Return r - 1 / 1000 * 3)
   \<and> calculate_expected_return (demo_backtester_on flat_benchmark_store) ''X'' 3
     = Inr (Some (1 / 1000, 12 / 10))
   \<and> iloc [0, 1, 0, 0, 0 :: real] 2 5 = [0, 0, 0]
   \<and> win_start (demo_backtester_on flat_benchmark_store) 3 = 2
   \<and> win_end (demo_backtester_on flat_benchmark_store) 3 = 4
   \<and> length (rows flat_benchmark_store) = 5
   \<and> length (iloc [1 / 1000, 1201 / 1000, 3, - 1, 2 :: real] 2 5) = nat (4 - 2 + 1)"
proof -
  let ?ev = "demo_event ''X'' 103"
  let ?z = "demo_backtester_on zero_model_store"
  let ?f = "demo_backtester_on flat_benchmark_store"
  note defs = demo_defs zero_model_store_def flat_benchmark_store_def demo_backtester_on_def
  have zs: "market_data ?z = Some zero_model_store" by (simp add: defs)
  have fs: "market_data ?f = Some flat_benchmark_store" by (simp add: defs)
  have zfit: "calculate_expected_return ?z (ticker ?ev) (int 3) = Inr (Some (0, 0))"
    by (simp add: defs engine_defs)
  have ffit: "calculate_expected_return ?f (ticker ?ev) (int 3) = Inr (Some (1 / 1000, 12 / 10))"
    by (simp add: defs engine_defs)
  have zloc: "get_loc (index zero_model_store) (event_date ?ev) = Some 3"
    by (simp add: defs index_def)
  have floc: "get_loc (index flat_benchmark_store) (event_date ?ev) = Some 3"
    by (simp add: defs index_def)
  have zx: "getitem zero_model_store (ticker ?ev) = Inr [0, 0, 3, - 1, 2]"
    by (simp add: defs getitem_def)
  have fx: "getitem flat_benchmark_store (ticker ?ev) = Inr [1 / 1000, 1201 / 1000, 3, - 1, 2]"
    by (simp add: defs getitem_def)
  have fb: "getitem flat_benchmark_store (benchmark_ticker ?f) = Inr [0, 1, 0, 0, 0]"
    by (simp add: defs getitem_def)
  have w: "win_start ?z (int 3) = 2" "win_end ?z (int 3) + 1 = 5"
    "win_start ?f (int 3) = 2" "win_end ?f (int 3) + 1 = 5" "win_end ?f (int 3) = 4"
    by (simp_all add: defs win_start_def win_end_def)
  have n: "length (rows flat_benchmark_store) = 5" by (simp add: defs)
  have sl: "iloc [0, 0, 3, - 1, 2 :: real] 2 5 = [3, - 1, 2]"
    "iloc [1 / 1000, 1201 / 1000, 3, - 1, 2 :: real] 2 5 = [3, - 1, 2]"
    "iloc [0, 1, 0, 0, 0 :: real] 2 5 = [0, 0, 0]"
    by (simp_all add: iloc_def slice_bound_def)
  obtain rz where rz: "process_event ?z ?ev = Inr (Some rz)"
    by (simp add: defs engine_defs)
  obtain rf where rf: "process_event ?f ?ev = Inr (Some rf)"
    by (simp add: defs engine_defs)
  from car_degenerate [OF zs rz] obtain i a b stock where
    "get_loc (index zero_model_store) (event_date ?ev) = Some i"
    "calculate_expected_return ?z (ticker ?ev) (int i) = Inr (Some (a, b))"
    "getitem zero_model_store (ticker ?ev) = Inr stock"
    "Real_Return rz = sum_list (iloc stock (win_start ?z (int i)) (win_end ?z (int i) + 1))"
    "a = 0 \<and> b = 0 \<longrightarrow> CAR rz = Real_Return rz"
    by blast
  with zloc zfit zx w sl have z: "Real_Return rz = 3 + - 1 + 2 \<and> CAR rz = Real_Return rz"
    by simp
  from car_degenerate [OF fs rf] obtain i a b stock bench where
    "get_loc (index flat_benchmark_store) (event_date ?ev) = Some i"
    "calculate_expected_return ?f (ticker ?ev) (int i) = Inr (Some (a, b))"
    "getitem flat_benchmark_store (ticker ?ev) = Inr stock"
    "getitem flat_benchmark_store (benchmark_ticker ?f) = Inr bench"
    "Real_Return rf = sum_list (iloc stock (win_start ?f (int i)) (win_end ?f (int i) + 1))"
    "(\<forall>m \<in> set (iloc bench (win_start ?f (int i)) (win_end ?f (int i) + 1)). m = 0)
       \<longrightarrow> CAR rf = (\<Sum>x\<leftarrow>iloc stock (win_start ?f (int i)) (win_end ?f (int i) + 1). x - a)
         \<and> CAR rf = Real_Return rf - a * real
                (length (iloc stock (win_start ?f (int i)) (win_end ?f (int i) + 1)))"
    "0 \<le> win_start ?f (int i) \<and> win_start ?f (int i) \<le> win_end ?f (int i)
       \<and> win_end ?f (int i) < int (length (rows flat_benchmark_store))
     \<longrightarrow> length (iloc stock (win_start ?f (int i)) (win_end ?f (int i) + 1))
         = nat (win_end ?f (int i) - win_start ?f (int i) + 1)"
    by blast
  with floc ffit fx fb w sl n
  have f: "Real_Return rf = 3 + - 1 + 2
      \<and> CAR rf = (3 - 1 / 1000) + (- 1 - 1 / 1000) + (2 - 1 / 1000)
      \<and> CAR rf = Real_Return rf - 1 / 1000 * 3
      \<and> length (iloc [1 / 1000, 1201 / 1000, 3, - 1, 2 :: real] 2 5) = nat (4 - 2 + 1)"
    by simp
  have t: "ticker ?ev = ''X''" by (simp add: defs)
  from rz z rf f zfit ffit sl t w n show ?thesis by simp
qed

text \<open>
  The claim as stated fails for the event on the last stored day of the second store
  (position 4 of five days). Its model is \<open>(3, -1.799)\<close>, its trade window is the
  positions 3 to 5, three days, and the benchmark is flat on the stored days of it; the
  slice holds the two days 3 and 4, and the CAR is \<open>1 - 3 * 2 = -5\<close>, not
  \<open>1 - 3 * 3 = -8\<close>.
\<close>

theorem clipped_flat_window_counterexample:
  "process_event (demo_backtester_on flat_benchmark_store) (demo_event ''X'' 104)
     = Inr (Some \<lparr>Ticker = ''X'', Event_Date = 104, Quality_Score = ''High'',
                  CAR = - 5, Real_Return = 1\<rparr>)
   \<and> get_loc (index flat_benchmark_store) 104 = Some 4
   \<and> calculate_expected_return (demo_backtester_on flat_benchmark_store) ''X'' 4
       = Inr (Some (3, - (1799 / 1000)))
   \<and> win_start (demo_backtester_on flat_benchmark_store) 4 = 3
   \<and> win_end (demo_backtester_on flat_benchmark_store) 4 = 5
   \<and> getitem flat_benchmark_store ''B'' = Inr [0, 1, 0, 0, 0]
   \<and> iloc [0, 1, 0, 0, 0 :: real] 3 (5 + 1) = [0, 0]
   \<and> (1 :: real) - 3 * real (nat (5 - 3 + 1)) = - 8"
  by (simp add: demo_defs zero_model_store_def flat_benchmark_store_def demo_backtester_on_def
      engine_defs)

section \<open>An empty aligned series\<close>

text \<open>
  Claim C9, as amended. Building the store does not fail when the aligned log-return
  series is empty: \<^verbatim>\<open>fetch_market_data\<close> stores the table without rows as the market
  data and raises nothing. On such a store the loop body skips every event, and a run
  returns the records that the instance held before, with no new record.
\<close>

theorem empty_store_is_accepted:
  assumes empty: "rows (log_return_frame data) = []"
  shows "market_data (fetch_market_data bt data) = Some \<lparr>columns = columns data, rows = []\<rparr>
    \<and> (\<forall>row. process_event (fetch_market_data bt data) row = Inr None)
    \<and> run_event_study (fetch_market_data bt data) evs
        = (Inr (results bt), fetch_market_data bt data)"
proof -
  let ?bt = "fetch_market_data bt data"
  have md: "log_return_frame data = \<lparr>columns = columns data, rows = []\<rparr>"
    using empty by (simp add: log_return_frame_def)
  then have store: "market_data ?bt = Some \<lparr>columns = columns data, rows = []\<rparr>"
    by (simp add: fetch_market_data_def)
  have skip: "process_event ?bt row = Inr None" for row
    using store by (simp add: process_event_def index_def)
  then have "\<forall>row \<in> set evs. \<forall>e. process_event ?bt row \<noteq> Inl e" by simp
  from event_loop_no_error [OF this]
  have loop: "event_loop ?bt evs = (None, ?bt\<lparr>results := results ?bt @ emitted ?bt evs\<rparr>)" .
  have "emitted ?bt evs = []"
    using skip by (induction evs) (simp_all add: emitted_def record_of_def)
  moreover have "results ?bt = results bt" by (simp add: fetch_market_data_def)
  ultimately have "event_loop ?bt evs = (None, ?bt)" using loop by simp
  then have "run_event_study ?bt evs = (Inr (results bt), ?bt)"
    by (simp add: run_event_study_def fetch_market_data_def)
  with store skip show ?thesis by blast
qed

text \<open>A price table of a single day has no return at all.\<close>

theorem empty_store_witness:
  "rows (log_return_frame single_day_prices) = []
   \<and> market_data (fetch_market_data (init_backtester ''B'' 2 (- 1, 1)) single_day_prices)
       = Some \<lparr>columns = [''X'', ''B''], rows = []\<rparr>
   \<and> run_event_study (fetch_market_data (init_backtester ''B'' 2 (- 1, 1)) single_day_prices)
        [demo_event ''X'' 100]
       = (Inr [], fetch_market_data (init_backtester ''B'' 2 (- 1, 1)) single_day_prices)"
proof -
  have e: "rows (log_return_frame single_day_prices) = []"
    by (simp add: log_return_frame_def dropna_def single_day_prices_def)
  have c: "columns single_day_prices = [''X'', ''B'']" by (simp add: single_day_prices_def)
  have r: "results (init_backtester ''B'' 2 (- 1, 1)) = []" by (simp add: init_backtester_def)
  from empty_store_is_accepted [OF e, of "init_backtester ''B'' 2 (- 1, 1)" "[demo_event ''X'' 100]"]
    e c r show ?thesis by simp
qed

text \<open>
  The claim as stated fails on the price table of a single day: the aligned series is
  empty, and the call returns the instance with the empty table as its market data.
\<close>

theorem empty_store_counterexample:
  "dropna (log_returns (replicate (length (columns single_day_prices)) None)
             (rows single_day_prices)) = []
   \<and> fetch_market_data (init_backtester ''B'' 60 (- 5, 1)) single_day_prices
       = \<lparr>benchmark_ticker = ''B'', estimation_window = 60, event_window = (- 5, 1),
          market_data = Some \<lparr>columns = [''X'', ''B''], rows = []\<rparr>, results = []\<rparr>"
  by (simp add: fetch_market_data_def log_return_frame_def dropna_def single_day_prices_def
      init_backtester_def)

section \<open>The start of the trade window\<close>

text \<open>
  Claim C10. With \<open>estimation_window \<ge> 0\<close> and \<open>lead_days \<le> 0\<close>, whenever
  \<^verbatim>\<open>calculate_expected_return\<close> returns a model, so that \<open>est_start \<ge> 0\<close>, the start
  \<open>win_start = event_position + lead_days\<close> of the trade window is not negative, and
  the slice resolves it as a position counted from the front; the same holds at the
  event position of every record that the loop body emits.
\<close>

theorem trade_window_start_nonneg:
  assumes w: "0 \<le> estimation_window bt" and lead: "fst (event_window bt) \<le> 0"
  shows "(\<forall>t i ab. calculate_expected_return bt t i = Inr (Some ab)
            \<longrightarrow> 0 \<le> est_start bt i \<and> 0 \<le> win_start bt i
                \<and> (\<forall>n. slice_bound n (win_start bt i) = min (nat (win_start bt i)) n))
       \<and> (\<forall>md row r. market_data bt = Some md \<and> process_event bt row = Inr (Some r)
            \<longrightarrow> (\<exists>event_idx. get_loc (index md) (event_date row) = Some event_idx
                    \<and> 0 \<le> win_start bt (int event_idx)))"
proof -
  have a: "0 \<le> est_start bt i \<and> 0 \<le> win_start bt i
      \<and> (\<forall>n. slice_bound n (win_start bt i) = min (nat (win_start bt i)) n)"
    if "calculate_expected_return bt t i = Inr (Some ab)" for t i ab
  proof -
    from calculate_expected_return_Some [OF that] have s: "0 \<le> est_start bt i" by blast
    then have "0 \<le> win_start bt i"
      using w lead by (simp add: est_start_def win_start_def)
    with s show ?thesis by (simp add: slice_bound_nonneg)
  qed
  have b: "\<exists>event_idx. get_loc (index md) (event_date row) = Some event_idx
          \<and> 0 \<le> win_start bt (int event_idx)"
    if "market_data bt = Some md" "process_event bt row = Inr (Some r)" for md row r
  proof -
    from process_event_Some [OF that] obtain event_idx alpha beta where
      "get_loc (index md) (event_date row) = Some event_idx"
      "calculate_expected_return bt (ticker row) (int event_idx) = Inr (Some (alpha, beta))"
      by blast
    with a show ?thesis by blast
  qed
  from a b show ?thesis by blast
qed

text \<open>
  On the small store the event at position 3 has the model \<open>(1, 2)\<close>, and its trade
  window starts at position 2.
\<close>

theorem trade_window_start_witness:
  "calculate_expected_return demo_backtester ''X'' 3 = Inr (Some (1, 2))
   \<and> win_start demo_backtester 3 = 2
   \<and> 0 \<le> win_start demo_backtester 3
   \<and> slice_bound 6 (win_start demo_backtester 3) = 2"
proof -
  have w: "0 \<le> estimation_window demo_backtester" by (simp add: demo_defs)
  have lead: "fst (event_window demo_backtester) \<le> 0" by (simp add: demo_defs)
  have fit: "calculate_expected_return demo_backtester ''X'' 3 = Inr (Some (1, 2))"
    by (simp add: demo_defs engine_defs)
  have ws: "win_start demo_backtester 3 = 2" by (simp add: demo_defs win_start_def)
  from trade_window_start_nonneg [OF w lead] fit
  have "0 \<le> win_start demo_backtester 3
    \<and> (\<forall>n. slice_bound n (win_start demo_backtester 3) = min (nat (win_start demo_backtester 3)) n)"
    by blast
  then have "0 \<le> win_start demo_backtester 3
    \<and> slice_bound 6 (win_start demo_backtester 3) = min (nat (win_start demo_backtester 3)) 6"
    by blast
  with fit ws show ?thesis by simp
qed

end
